theory Spec2Isabelle
  imports Complex_Main "HOL-Library.AList" "HOL-Library.Sublist" "HOL-Library.Char_ord"
    "HOL-Library.List_Lexorder" "HOL-Library.Product_Lexorder" "HOL-Library.Multiset"
begin

section \<open>Edge forecasting services: cache, freshness, features, windows, forecasts\<close>

text \<open>
  A shallow embedding of \<^verbatim>\<open>services/forecastingApi/app.py\<close> and
  \<^verbatim>\<open>services/model-updater/app.py\<close>. Python exceptions are values of the type
  \<open>error\<close>; a function that can raise returns \<open>error + 'a\<close>. Wall-clock readings,
  the Redis client, the S3 client and the parsing libraries are inputs of the
  functions that use them.
\<close>

datatype error =
    KeyError string
  | IndexError
  | TypeError
  | OverflowError
  | AttributeError
  | InsufficientData nat nat
    \<comment> \<open>\<^verbatim>\<open>ValueError("Insufficient data for sequence creation: {len(df)} < {seq_length}")\<close>\<close>
  | NoValidSequences
    \<comment> \<open>\<^verbatim>\<open>ValueError("No valid sequences created")\<close>\<close>
  | NoDataFound string
    \<comment> \<open>\<^verbatim>\<open>ValueError("No data found for customer ...")\<close> and
        \<^verbatim>\<open>ValueError("No total_load.csv found for customer ...")\<close>\<close>
  | S3Unavailable
    \<comment> \<open>\<^verbatim>\<open>Exception("AWS S3 client not available")\<close>\<close>
  | LibraryError string
    \<comment> \<open>an exception raised inside a library call (boto3, json, keras, joblib, pandas)\<close>

text \<open>The result of a library call that either raises (with its message) or returns.\<close>

datatype 'a outcome = Raises string | Returns 'a


subsection \<open>model-updater: \<^verbatim>\<open>check_model_freshness\<close>\<close>

text \<open>
  The dictionary the function returns: \<^verbatim>\<open>needs_update\<close>, \<^verbatim>\<open>reason\<close> and, on the
  fresh branch only, \<^verbatim>\<open>updated_at\<close>.
\<close>

record freshness =
  needs_update :: bool
  reason :: string
  updated_at :: "int option"

text \<open>
  What the function reads. \<open>upd_redis\<close> is the module's \<^verbatim>\<open>redis_client\<close>: \<open>None\<close> when
  the connection failed at start-up, otherwise the client's \<^verbatim>\<open>get\<close>, which raises or
  returns the stored string (\<open>None\<close> for an absent or expired key).
  \<open>upd_parse\<close> stands for \<^verbatim>\<open>datetime.fromisoformat(json.loads(s)['updated_at'])\<close>, a
  point in time in microseconds, or the exception any of the three steps (or the
  subtraction from a naive \<^verbatim>\<open>datetime.now()\<close>) raises. \<open>upd_now\<close> is
  \<^verbatim>\<open>datetime.now()\<close>, in microseconds.
\<close>

record updater_env =
  upd_redis :: "(string \<Rightarrow> string option outcome) option"
  upd_parse :: "string \<Rightarrow> int outcome"
  upd_now :: int

definition seven_days :: int where
  "seven_days = 7 * 24 * 3600 * 1000000"

definition updater_cache_key :: "string \<Rightarrow> string" where
  "updater_cache_key customer_id = ''edge:model:'' @ customer_id"

definition check_model_freshness :: "updater_env \<Rightarrow> string \<Rightarrow> freshness" where
  "check_model_freshness env customer_id =
     (case upd_redis env of
        None \<Rightarrow> \<lparr>needs_update = True, reason = ''Redis not available'', updated_at = None\<rparr>
      | Some get \<Rightarrow>
         (case get (updater_cache_key customer_id) of
            Raises e \<Rightarrow> \<lparr>needs_update = True, reason = ''Error: '' @ e, updated_at = None\<rparr>
          | Returns None \<Rightarrow>
              \<lparr>needs_update = True, reason = ''No cached model'', updated_at = None\<rparr>
          | Returns (Some cached_data) \<Rightarrow>
             (if cached_data = [] then
                \<lparr>needs_update = True, reason = ''No cached model'', updated_at = None\<rparr>
              else
                (case upd_parse env cached_data of
                   Raises e \<Rightarrow>
                     \<lparr>needs_update = True, reason = ''Error: '' @ e, updated_at = None\<rparr>
                 | Returns t \<Rightarrow>
                     (if upd_now env - t > seven_days then
                        \<lparr>needs_update = True, reason = ''Model older than 7 days'',
                         updated_at = None\<rparr>
                      else
                        \<lparr>needs_update = False, reason = ''Model is fresh'',
                         updated_at = Some t\<rparr>)))))"

text \<open>The three reasons the specification enumerates, as the code spells them.\<close>

definition spec_reasons :: "string set" where
  "spec_reasons = {''No cached model'', ''Model older than 7 days'', ''Model is fresh''}"

text \<open>An updater whose Redis connection failed at start-up.\<close>

definition env_no_redis :: updater_env where
  "env_no_redis = \<lparr>upd_redis = None, upd_parse = (\<lambda>s. Returns 0), upd_now = 0\<rparr>"

text \<open>
  An updater at time \<open>now\<close> whose Redis holds, under the customer's key, a record
  that parses to the time \<open>t\<close>; every other key is absent.
\<close>

definition env_cached :: "string \<Rightarrow> int \<Rightarrow> int \<Rightarrow> updater_env" where
  "env_cached customer_id t now =
     \<lparr>upd_redis = Some (\<lambda>k. Returns (if k = updater_cache_key customer_id
                                        then Some ''{...}'' else None)),
      upd_parse = (\<lambda>s. Returns t),
      upd_now = now\<rparr>"


subsection \<open>forecastingApi: forecast assembly in \<^verbatim>\<open>generate_forecast\<close>\<close>

text \<open>
  Python list indexing \<^verbatim>\<open>xs[k]\<close>: a negative index counts from the end, an index out
  of range raises \<^verbatim>\<open>IndexError\<close>.
\<close>

definition py_index :: "'a list \<Rightarrow> int \<Rightarrow> error + 'a" where
  "py_index xs k =
     (let n = int (length xs); j = (if k < 0 then n + k else k)
      in if 0 \<le> j \<and> j < n then Inr (xs ! nat j) else Inl IndexError)"

text \<open>
  One entry of the \<^verbatim>\<open>forecasts\<close> list: the timestamp (seconds since the epoch; the code
  renders it with \<^verbatim>\<open>isoformat\<close>), \<^verbatim>\<open>hour_ahead\<close>, and the \<^verbatim>\<open>{target}_forecast\<close> keys
  in insertion order.
\<close>

record 'v forecast_entry =
  fc_timestamp :: int
  fc_hour_ahead :: int
  fc_targets :: "(string \<times> 'v) list"

text \<open>
  \<^verbatim>\<open>for j, target in enumerate(available_targets): if j < pred.shape[0]: ...\<close>
\<close>

definition target_entries :: "string list \<Rightarrow> 'v list \<Rightarrow> (string \<times> 'v) list" where
  "target_entries available_targets pred =
     map (\<lambda>j. (available_targets ! j @ ''_forecast'', pred ! j))
       (filter (\<lambda>j. j < length pred) [0..<length available_targets])"

text \<open>The body of the loop for one \<open>i\<close>.\<close>

definition forecast_entry_at ::
  "'v list list \<Rightarrow> 'v list \<Rightarrow> int \<Rightarrow> string list \<Rightarrow> nat \<Rightarrow> error + 'v forecast_entry" where
  "forecast_entry_at predictions latest_prediction last_timestamp available_targets i =
     (case (if i < length predictions
            then py_index predictions (- (int (length predictions) - int i))
            else Inr latest_prediction) of
        Inl e \<Rightarrow> Inl e
      | Inr pred \<Rightarrow>
          Inr \<lparr>fc_timestamp = last_timestamp + 3600 * (int i + 1),
               fc_hour_ahead = int i + 1,
               fc_targets = target_entries available_targets pred\<rparr>)"

text \<open>The loop: entries are appended in order; an exception ends it.\<close>

fun forecast_loop ::
  "'v list list \<Rightarrow> 'v list \<Rightarrow> int \<Rightarrow> string list \<Rightarrow> nat list \<Rightarrow> 'v forecast_entry list
     \<Rightarrow> error + 'v forecast_entry list" where
  "forecast_loop predictions latest T targets [] forecasts = Inr forecasts"
| "forecast_loop predictions latest T targets (i # is) forecasts =
     (case forecast_entry_at predictions latest T targets i of
        Inl e \<Rightarrow> Inl e
      | Inr entry \<Rightarrow> forecast_loop predictions latest T targets is (forecasts @ [entry]))"

text \<open>
  Step 7 of \<^verbatim>\<open>generate_forecast\<close>, from \<^verbatim>\<open>latest_prediction = predictions[-1]\<close> to the end
  of the loop. \<open>predictions\<close> is the model's output, one vector per window, in the
  order of the windows (oldest first).
\<close>

definition assemble_forecasts ::
  "'v list list \<Rightarrow> int \<Rightarrow> int \<Rightarrow> string list \<Rightarrow> error + 'v forecast_entry list" where
  "assemble_forecasts predictions last_timestamp forecast_hours available_targets =
     (case py_index predictions (- 1) of
        Inl e \<Rightarrow> Inl e
      | Inr latest_prediction \<Rightarrow>
          forecast_loop predictions latest_prediction last_timestamp available_targets
            [0..<nat (min forecast_hours (int (length predictions)))] [])"

text \<open>The specification's example: 2025-01-15T08:00:00Z and five single-target predictions.\<close>

definition example_T :: int where
  "example_T = 1736928000"

definition example_predictions :: "int list list" where
  "example_predictions = [[10], [11], [12], [13], [14]]"


subsection \<open>Data frames\<close>

text \<open>
  A cell of a pandas frame: missing (\<^verbatim>\<open>NaN\<close>, \<^verbatim>\<open>NaT\<close>, \<^verbatim>\<open>None\<close>), a number, a string or
  a timestamp (seconds since the epoch). Numbers are \<^verbatim>\<open>float64\<close> and integer values
  idealised as reals: rounding and infinities are not modelled.
\<close>

datatype cell = is_NA: NA | is_Num: Num real | is_Str: Str string | is_TS: TS int

text \<open>
  A frame: the number of rows and the columns in order, each a name with its cells.
  In a well-formed frame every column has \<open>nrows\<close> cells and no name occurs twice.
\<close>

record frame =
  nrows :: nat
  cols :: "(string \<times> cell list) list"

definition wf_frame :: "frame \<Rightarrow> bool" where
  "wf_frame df \<longleftrightarrow>
     (\<forall>xs \<in> snd ` set (cols df). length xs = nrows df) \<and> distinct (map fst (cols df))"

text \<open>\<^verbatim>\<open>isna(frame).sum() == 0\<close> for every column.\<close>

definition no_missing :: "frame \<Rightarrow> bool" where
  "no_missing df \<longleftrightarrow> (\<forall>xs \<in> snd ` set (cols df). NA \<notin> set xs)"

text \<open>\<^verbatim>\<open>c in df.columns\<close>, \<^verbatim>\<open>df[c]\<close> (\<open>None\<close>: \<^verbatim>\<open>KeyError\<close>) and \<^verbatim>\<open>df[c] = xs\<close>: an existing
  column is replaced in place, a new one is appended.\<close>

definition has_col :: "frame \<Rightarrow> string \<Rightarrow> bool" where
  "has_col df c \<longleftrightarrow> c \<in> set (map fst (cols df))"

definition get_col :: "frame \<Rightarrow> string \<Rightarrow> cell list option" where
  "get_col df c = map_of (cols df) c"

definition set_col :: "frame \<Rightarrow> string \<Rightarrow> cell list \<Rightarrow> frame" where
  "set_col df c xs = df\<lparr>cols := AList.update c xs (cols df)\<rparr>"

text \<open>\<^verbatim>\<open>df[c] = v\<close> for a scalar \<open>v\<close>: the value in every row.\<close>

definition broadcast :: "frame \<Rightarrow> cell \<Rightarrow> cell list" where
  "broadcast df v = replicate (nrows df) v"

text \<open>A column pandas treats as numbers (\<^verbatim>\<open>float64\<close>): numbers and missing cells only.\<close>

definition numeric :: "cell list \<Rightarrow> bool" where
  "numeric xs \<longleftrightarrow> (\<forall>c \<in> set xs. is_NA c \<or> is_Num c)"

text \<open>A column with the \<^verbatim>\<open>.dt\<close> accessor: timestamps and missing cells only.\<close>

definition datetimelike :: "cell list \<Rightarrow> bool" where
  "datetimelike xs \<longleftrightarrow> (\<forall>c \<in> set xs. is_NA c \<or> is_TS c)"

definition stringlike :: "cell list \<Rightarrow> bool" where
  "stringlike xs \<longleftrightarrow> (\<forall>c \<in> set xs. is_NA c \<or> is_Str c)"

text \<open>
  \<^verbatim>\<open>df.sort_values(by)\<close>: rows in ascending order of the column \<open>by\<close>, missing keys
  last; \<^verbatim>\<open>KeyError\<close> without the column, \<^verbatim>\<open>TypeError\<close> when its values are of
  different kinds and cannot be compared. Rows with equal keys keep their order
  here (pandas' default sort does not promise an order among them).
\<close>

definition sort_rank :: "cell \<Rightarrow> nat \<times> real \<times> string" where
  "sort_rank c =
     (case c of NA \<Rightarrow> (1, 0, []) | Num r \<Rightarrow> (0, r, []) | TS t \<Rightarrow> (0, real_of_int t, [])
      | Str s \<Rightarrow> (0, 0, s))"

definition sortable :: "cell list \<Rightarrow> bool" where
  "sortable xs \<longleftrightarrow> numeric xs \<or> datetimelike xs \<or> stringlike xs"

definition sort_values :: "frame \<Rightarrow> string \<Rightarrow> error + frame" where
  "sort_values df by_col =
     (case get_col df by_col of
        None \<Rightarrow> Inl (KeyError by_col)
      | Some ks \<Rightarrow>
          if \<not> sortable ks then Inl TypeError
          else
            (let perm = sort_key (\<lambda>i. sort_rank (ks ! i)) [0..<nrows df]
             in Inr (df\<lparr>cols := map (\<lambda>(c, xs). (c, map ((!) xs) perm)) (cols df)\<rparr>)))"

text \<open>Reductions of a numeric column; pandas skips missing cells.\<close>

fun nums :: "cell list \<Rightarrow> real list" where
  "nums [] = []"
| "nums (Num r # xs) = r # nums xs"
| "nums (c # xs) = nums xs"

definition pd_mean :: "cell list \<Rightarrow> cell" where
  "pd_mean xs =
     (let ys = nums xs in if ys = [] then NA else Num (sum_list ys / real (length ys)))"

text \<open>\<^verbatim>\<open>Series.std()\<close>: the sample standard deviation (\<^verbatim>\<open>ddof=1\<close>), missing below two values.\<close>

definition pd_std :: "cell list \<Rightarrow> cell" where
  "pd_std xs =
     (let ys = nums xs; m = sum_list ys / real (length ys)
      in if length ys < 2 then NA
         else Num (sqrt (sum_list (map (\<lambda>y. (y - m)\<^sup>2) ys) / real (length ys - 1))))"

definition pd_min :: "cell list \<Rightarrow> cell" where
  "pd_min xs = (case nums xs of [] \<Rightarrow> NA | y # ys \<Rightarrow> Num (fold min ys y))"

definition pd_max :: "cell list \<Rightarrow> cell" where
  "pd_max xs = (case nums xs of [] \<Rightarrow> NA | y # ys \<Rightarrow> Num (fold max ys y))"

text \<open>
  \<^verbatim>\<open>df.groupby(key)[val].transform('mean')\<close>: in every row the mean of \<open>val\<close> over the
  rows with the same key; rows with a missing key get a missing cell.
\<close>

definition group_mean :: "cell list \<Rightarrow> cell list \<Rightarrow> cell list" where
  "group_mean keys vals =
     map (\<lambda>k. if k = NA then NA
              else pd_mean (map snd (filter (\<lambda>(k', v). k' = k) (zip keys vals)))) keys"

text \<open>
  \<^verbatim>\<open>xs / (ys + 1e-8)\<close>, cell by cell. A zero denominator, where numpy yields
  \<^verbatim>\<open>inf\<close> or \<^verbatim>\<open>NaN\<close>, is a missing cell here.
\<close>

definition div_eps :: "cell \<Rightarrow> cell \<Rightarrow> cell" where
  "div_eps x y =
     (case (x, y) of
        (Num a, Num b) \<Rightarrow> if b + 1 / 100000000 = 0 then NA else Num (a / (b + 1 / 100000000))
      | _ \<Rightarrow> NA)"

text \<open>\<^verbatim>\<open>Series.shift(k)\<close>: every value \<open>k\<close> rows down, the first \<open>k\<close> rows missing.\<close>

definition shift :: "nat \<Rightarrow> cell list \<Rightarrow> cell list" where
  "shift k xs = replicate (min k (length xs)) NA @ take (length xs - k) xs"

text \<open>
  \<^verbatim>\<open>Series.rolling(window=w, min_periods=1)\<close>: the reduction of the (up to) \<open>w\<close> cells
  ending at each row.
\<close>

definition rolling :: "nat \<Rightarrow> (cell list \<Rightarrow> cell) \<Rightarrow> cell list \<Rightarrow> cell list" where
  "rolling w agg xs = map (\<lambda>i. agg (drop (i + 1 - w) (take (i + 1) xs))) [0..<length xs]"

text \<open>\<^verbatim>\<open>fillna(method='ffill')\<close>, \<^verbatim>\<open>fillna(method='bfill')\<close> and \<^verbatim>\<open>fillna(0)\<close> on a column.\<close>

fun ffill_from :: "cell \<Rightarrow> cell list \<Rightarrow> cell list" where
  "ffill_from prev [] = []"
| "ffill_from prev (x # xs) =
     (if x = NA then prev # ffill_from prev xs else x # ffill_from x xs)"

definition ffill :: "cell list \<Rightarrow> cell list" where
  "ffill xs = ffill_from NA xs"

definition bfill :: "cell list \<Rightarrow> cell list" where
  "bfill xs = rev (ffill (rev xs))"

definition fillna0 :: "cell list \<Rightarrow> cell list" where
  "fillna0 xs = map (\<lambda>c. if c = NA then Num 0 else c) xs"

definition map_cols :: "(cell list \<Rightarrow> cell list) \<Rightarrow> frame \<Rightarrow> frame" where
  "map_cols g df = df\<lparr>cols := map (\<lambda>(c, xs). (c, g xs)) (cols df)\<rparr>"

text \<open>Calendar fields of a timestamp: \<^verbatim>\<open>.dt.hour\<close>, \<^verbatim>\<open>.dt.dayofweek\<close> (Monday is 0), \<^verbatim>\<open>.dt.month\<close>.\<close>

definition hour_of :: "int \<Rightarrow> int" where
  "hour_of t = (t div 3600) mod 24"

definition dayofweek_of :: "int \<Rightarrow> int" where
  "dayofweek_of t = (t div 86400 + 3) mod 7"

definition month_of :: "int \<Rightarrow> int" where
  "month_of t =
     (let z = t div 86400 + 719468;
          doe = z mod 146097;
          yoe = (doe - doe div 1460 + doe div 36524 - doe div 146096) div 365;
          doy = doe - (365 * yoe + yoe div 4 - yoe div 100);
          mp = (5 * doy + 2) div 153
      in if mp < 10 then mp + 3 else mp - 9)"

definition dt_field :: "(int \<Rightarrow> int) \<Rightarrow> cell list \<Rightarrow> cell list" where
  "dt_field g ts = map (\<lambda>c. case c of TS t \<Rightarrow> Num (real_of_int (g t)) | _ \<Rightarrow> NA) ts"


subsection \<open>forecastingApi: \<^verbatim>\<open>prepare_features_for_inference\<close>\<close>

text \<open>
  A fitted encoder, as the pipeline uses it: \<^verbatim>\<open>enc.transform(col.astype(str))\<close>
  returns an array or raises (\<open>None\<close>), as on a category it has not seen.
  \<^verbatim>\<open>encoders\<close> is the dictionary of the bundle.
\<close>

type_synonym encoder = "cell list \<Rightarrow> cell list option"

text \<open>
  The body of one \<^verbatim>\<open>try: df[..] = encoders[name].transform(df[raw].astype(str))\<close>
  \<^verbatim>\<open>except Exception: df[..] = 0\<close>: a missing encoder, a missing raw column, a failing
  transform and a result of the wrong length all raise inside the \<^verbatim>\<open>try\<close>.
\<close>

definition try_transform :: "(string \<rightharpoonup> encoder) \<Rightarrow> string \<Rightarrow> frame \<Rightarrow> string \<Rightarrow> cell list" where
  "try_transform encoders name df raw =
     (case encoders name of
        None \<Rightarrow> broadcast df (Num 0)
      | Some enc \<Rightarrow>
         (case get_col df raw of
            None \<Rightarrow> broadcast df (Num 0)
          | Some xs \<Rightarrow>
             (case enc xs of
                None \<Rightarrow> broadcast df (Num 0)
              | Some ys \<Rightarrow> if length ys = nrows df then ys else broadcast df (Num 0))))"

definition encode_categoricals :: "frame \<Rightarrow> string \<Rightarrow> (string \<rightharpoonup> encoder) \<Rightarrow> frame" where
  "encode_categoricals data_df customer_id encoders =
     (let df = (if \<not> has_col data_df ''customer_id''
                then set_col data_df ''customer_id'' (broadcast data_df (Str customer_id))
                else data_df);
          df = set_col df ''customer_encoded''
                 (try_transform encoders ''customer_encoder'' df ''customer_id'');
          df = set_col df ''manufacturer_encoded''
                 (if has_col df ''manufacturer''
                  then try_transform encoders ''manufacturer_encoder'' df ''manufacturer''
                  else broadcast df (Num 0));
          df = set_col df ''region_encoded''
                 (if has_col df ''region''
                  then try_transform encoders ''region_encoder'' df ''region''
                  else broadcast df (Num 0))
      in df)"

text \<open>\<^verbatim>\<open>(df['day_of_week'] >= 5).astype(int)\<close>: a comparison with a missing cell is false.\<close>

definition weekend_flag :: "cell \<Rightarrow> cell" where
  "weekend_flag c = (case c of Num d \<Rightarrow> if d \<ge> 5 then Num 1 else Num 0 | _ \<Rightarrow> Num 0)"

definition time_features :: "frame \<Rightarrow> error + frame" where
  "time_features df =
     (case get_col df ''timestamp'' of
        None \<Rightarrow> Inl (KeyError ''timestamp'')
      | Some ts \<Rightarrow>
          if \<not> datetimelike ts then Inl AttributeError
          else
            (let df = set_col df ''hour'' (dt_field hour_of ts);
                 df = set_col df ''day_of_week'' (dt_field dayofweek_of ts);
                 df = set_col df ''month'' (dt_field month_of ts);
                 df = set_col df ''is_weekend'' (map weekend_flag (dt_field dayofweek_of ts))
             in Inr df))"

text \<open>
  The statistical columns of the \<^verbatim>\<open>if 'kWh' in df.columns\<close> block, up to the ratio
  features. A \<^verbatim>\<open>kWh\<close> column that is not numeric makes the reductions raise. The
  \<^verbatim>\<open>mfg_\<close> columns are copies of the \<^verbatim>\<open>customer_\<close> columns just stored.
\<close>

definition stat_features :: "frame \<Rightarrow> cell list \<Rightarrow> error + frame" where
  "stat_features df kwh =
     (if \<not> numeric kwh then Inl TypeError
      else
        (case get_col df ''hour'' of
           None \<Rightarrow> Inl (KeyError ''hour'')
         | Some hours \<Rightarrow>
            (let mean_col = broadcast df (pd_mean kwh);
                 std_col = broadcast df (pd_std kwh);
                 min_col = broadcast df (pd_min kwh);
                 max_col = broadcast df (pd_max kwh);
                 df = set_col df ''customer_kwh_mean'' mean_col;
                 df = set_col df ''customer_kwh_std'' std_col;
                 df = set_col df ''customer_kwh_min'' min_col;
                 df = set_col df ''customer_kwh_max'' max_col;
                 df = set_col df ''mfg_kwh_mean'' mean_col;
                 df = set_col df ''mfg_kwh_std'' std_col;
                 df = set_col df ''mfg_kwh_min'' min_col;
                 df = set_col df ''mfg_kwh_max'' max_col;
                 df = set_col df ''regional_hourly_kwh_mean'' (group_mean hours kwh);
                 df = set_col df ''kwh_vs_customer_mean'' (map2 div_eps kwh mean_col);
                 df = set_col df ''kwh_vs_mfg_mean'' (map2 div_eps kwh mean_col)
             in Inr df)))"

text \<open>
  The lag and rolling columns: the frame is sorted by timestamp first, and the
  24-step lag is a shift only when the frame has more than 24 rows.
\<close>

definition lag_features :: "frame \<Rightarrow> error + frame" where
  "lag_features df0 =
     (case sort_values df0 ''timestamp'' of
        Inl e \<Rightarrow> Inl e
      | Inr df \<Rightarrow>
         (case get_col df ''kWh'' of
            None \<Rightarrow> Inl (KeyError ''kWh'')
          | Some kwh \<Rightarrow>
             (let df = set_col df ''kwh_lag_1h'' (shift 1 kwh);
                  df = (if nrows df > 24
                        then set_col df ''kwh_lag_24h'' (shift 24 kwh)
                        else set_col df ''kwh_lag_24h'' (broadcast df (pd_mean kwh)));
                  df = set_col df ''kwh_rolling_mean_6h'' (rolling 6 pd_mean kwh);
                  df = set_col df ''kwh_rolling_std_6h'' (rolling 6 pd_std kwh)
              in Inr df)))"

definition kwh_features :: "frame \<Rightarrow> error + frame" where
  "kwh_features df =
     (case get_col df ''kWh'' of
        None \<Rightarrow> Inr df
      | Some kwh \<Rightarrow>
         (case stat_features df kwh of
            Inl e \<Rightarrow> Inl e
          | Inr df \<Rightarrow> lag_features df))"

text \<open>Everything up to the line \<^verbatim>\<open># Fill NaN values\<close>.\<close>

definition derive_features :: "frame \<Rightarrow> string \<Rightarrow> (string \<rightharpoonup> encoder) \<Rightarrow> error + frame" where
  "derive_features data_df customer_id encoders =
     (case time_features (encode_categoricals data_df customer_id encoders) of
        Inl e \<Rightarrow> Inl e
      | Inr df \<Rightarrow> kwh_features df)"

text \<open>\<^verbatim>\<open>df.fillna(method='ffill').fillna(method='bfill').fillna(0)\<close>\<close>

definition fill_missing :: "frame \<Rightarrow> frame" where
  "fill_missing df = map_cols fillna0 (map_cols bfill (map_cols ffill df))"

definition prepare_features_for_inference ::
  "frame \<Rightarrow> string \<Rightarrow> (string \<rightharpoonup> encoder) \<Rightarrow> error + frame" where
  "prepare_features_for_inference data_df customer_id encoders =
     (case derive_features data_df customer_id encoders of
        Inl e \<Rightarrow> Inl e
      | Inr df \<Rightarrow> Inr (fill_missing df))"


subsection \<open>forecastingApi: \<^verbatim>\<open>create_sequences_for_inference\<close>\<close>

text \<open>
  \<^verbatim>\<open>seq_data[feature_cols].values\<close> for \<^verbatim>\<open>seq_data = df.iloc[lo:hi]\<close>, followed by
  \<^verbatim>\<open>np.isnan\<close>. \<open>window_rows\<close> is the block of values: the rows \<open>lo..<hi\<close>
  restricted to the feature columns, in their order. \<open>None\<close> stands for the
  exception the \<^verbatim>\<open>try\<close> catches: a feature column the frame does not have
  (\<^verbatim>\<open>KeyError\<close>), or a block on which \<^verbatim>\<open>np.isnan\<close> raises \<^verbatim>\<open>TypeError\<close>.
  The block is a \<^verbatim>\<open>float64\<close> array when every selected column is numeric and a
  \<^verbatim>\<open>datetime64\<close> array when every selected column is a datetime column;
  \<^verbatim>\<open>np.isnan\<close> accepts both, a missing timestamp (\<^verbatim>\<open>NaT\<close>) counting as missing. Any
  other selection (strings, or numbers beside timestamps) is an \<^verbatim>\<open>object\<close> array,
  which \<^verbatim>\<open>np.isnan\<close> refuses. The kind of a column is read off its cells.
\<close>

definition isnan_accepts :: "frame \<Rightarrow> string list \<Rightarrow> bool" where
  "isnan_accepts df feature_cols \<longleftrightarrow>
     (\<forall>c \<in> set feature_cols. case get_col df c of None \<Rightarrow> False | Some xs \<Rightarrow> numeric xs)
     \<or> (\<forall>c \<in> set feature_cols.
           case get_col df c of None \<Rightarrow> False | Some xs \<Rightarrow> datetimelike xs)"

definition window_rows :: "frame \<Rightarrow> string list \<Rightarrow> nat \<Rightarrow> nat \<Rightarrow> cell list list" where
  "window_rows df feature_cols lo hi =
     map (\<lambda>r. map (\<lambda>c. case get_col df c of None \<Rightarrow> NA | Some xs \<Rightarrow> xs ! r) feature_cols)
       [lo..<hi]"

definition seq_features :: "frame \<Rightarrow> string list \<Rightarrow> nat \<Rightarrow> nat \<Rightarrow> cell list list option" where
  "seq_features df feature_cols lo hi =
     (if isnan_accepts df feature_cols then Some (window_rows df feature_cols lo hi)
      else None)"

text \<open>\<^verbatim>\<open>np.isnan(seq_features).any()\<close>\<close>

definition has_nan :: "cell list list \<Rightarrow> bool" where
  "has_nan w \<longleftrightarrow> (\<exists>row \<in> set w. NA \<in> set row)"

text \<open>The loop over \<^verbatim>\<open>range(seq_length, len(df) + 1)\<close>, with the list \<^verbatim>\<open>sequences\<close>.\<close>

fun sequence_loop ::
  "frame \<Rightarrow> string list \<Rightarrow> nat \<Rightarrow> nat list \<Rightarrow> cell list list list \<Rightarrow> cell list list list" where
  "sequence_loop df feature_cols seq_length [] sequences = sequences"
| "sequence_loop df feature_cols seq_length (i # is) sequences =
     (case seq_features df feature_cols (i - seq_length) i of
        None \<Rightarrow> sequence_loop df feature_cols seq_length is sequences
      | Some w \<Rightarrow>
          if \<not> has_nan w
          then sequence_loop df feature_cols seq_length is (sequences @ [w])
          else sequence_loop df feature_cols seq_length is sequences)"

definition create_sequences_for_inference ::
  "frame \<Rightarrow> string list \<Rightarrow> nat \<Rightarrow> error + cell list list list" where
  "create_sequences_for_inference data_df feature_cols seq_length =
     (case sort_values data_df ''timestamp'' of
        Inl e \<Rightarrow> Inl e
      | Inr df \<Rightarrow>
          if nrows df < seq_length then Inl (InsufficientData (nrows df) seq_length)
          else
            (let sequences =
                   sequence_loop df feature_cols seq_length [seq_length..<nrows df + 1] []
             in if sequences = [] then Inl NoValidSequences else Inr sequences))"


subsection \<open>forecastingApi: caches, stores and the local disk\<close>

text \<open>
  What the service touches outside its own arguments. \<open>redis_client\<close> and \<open>s3_client\<close>
  tell whether the module-level clients were created; \<open>redis_up\<close> whether a call to
  Redis succeeds (it raises otherwise); \<open>redis_data\<close> is the content of Redis (an
  expired key is an absent key; expiry itself is not modelled); \<open>s3_bucket\<close> gives
  the objects of a bucket in listing order; \<open>input_bucket\<close> and \<open>output_bucket\<close> are
  the configured bucket names; the three caches are the module's dictionaries;
  \<open>files\<close> is the local disk; \<open>clock\<close> is \<^verbatim>\<open>datetime.now()\<close> in seconds; \<open>trace\<close>
  records the calls made, in order. \<open>'a\<close> is the type of the objects a bundle is
  made of (\<^verbatim>\<open>Any\<close>).
\<close>

datatype event =
    RedisGet string
  | RedisSetex string
  | MemoryLookup string
  | S3GetObject string string
  | S3ListObjects string string
  | S3DownloadFile string string string
  | FileRemove string

record 'a world =
  redis_client :: bool
  redis_up :: bool
  redis_data :: "string \<rightharpoonup> string"
  s3_client :: bool
  s3_bucket :: "string \<Rightarrow> (string \<times> string) list"
  input_bucket :: string
  output_bucket :: string
  model_cache :: "string \<rightharpoonup> 'a"
  encoders_cache :: "string \<rightharpoonup> 'a"
  config_cache :: "string \<rightharpoonup> 'a option"
  files :: "string \<rightharpoonup> string"
  clock :: int
  trace :: "event list"

text \<open>The cache tier (or the cold store) a call reads from.\<close>

datatype tier = Memory | Distributed | ColdStore

definition consulted :: "event \<Rightarrow> tier option" where
  "consulted ev =
     (case ev of
        RedisGet k \<Rightarrow> Some Distributed
      | MemoryLookup c \<Rightarrow> Some Memory
      | S3GetObject b k \<Rightarrow> Some ColdStore
      | S3ListObjects b p \<Rightarrow> Some ColdStore
      | S3DownloadFile b k p \<Rightarrow> Some ColdStore
      | _ \<Rightarrow> None)"

definition logged :: "event \<Rightarrow> 'a world \<Rightarrow> 'a world" where
  "logged ev w = w\<lparr>trace := trace w @ [ev]\<rparr>"

text \<open>Sequencing of steps that can raise: the first exception ends the run.\<close>

definition and_then ::
  "('w \<Rightarrow> (error + 'x) \<times> 'w) \<Rightarrow> ('x \<Rightarrow> 'w \<Rightarrow> (error + 'y) \<times> 'w)
     \<Rightarrow> 'w \<Rightarrow> (error + 'y) \<times> 'w" where
  "and_then m f w = (case m w of (Inl e, w') \<Rightarrow> (Inl e, w') | (Inr x, w') \<Rightarrow> f x w')"

text \<open>\<^verbatim>\<open>redis_client.get(key)\<close> and \<^verbatim>\<open>redis_client.setex(key, ttl, value)\<close>.\<close>

definition redis_get :: "string \<Rightarrow> 'a world \<Rightarrow> string option outcome \<times> 'a world" where
  "redis_get k w =
     (if redis_up w then Returns (redis_data w k) else Raises ''ConnectionError'',
      logged (RedisGet k) w)"

definition redis_setex :: "string \<Rightarrow> string \<Rightarrow> 'a world \<Rightarrow> unit outcome \<times> 'a world" where
  "redis_setex k v w =
     (if redis_up w
      then (Returns (), logged (RedisSetex k) (w\<lparr>redis_data := (redis_data w)(k \<mapsto> v)\<rparr>))
      else (Raises ''ConnectionError'', logged (RedisSetex k) w))"

text \<open>\<^verbatim>\<open>s3.get_object(Bucket, Key)['Body'].read()\<close> and \<^verbatim>\<open>s3.download_file(Bucket, Key, path)\<close>;
  both raise for a key the bucket does not hold.\<close>

definition s3_get_object :: "string \<Rightarrow> string \<Rightarrow> 'a world \<Rightarrow> (error + string) \<times> 'a world" where
  "s3_get_object b k w =
     (case map_of (s3_bucket w b) k of
        None \<Rightarrow> (Inl (LibraryError ''NoSuchKey''), logged (S3GetObject b k) w)
      | Some body \<Rightarrow> (Inr body, logged (S3GetObject b k) w))"

definition s3_download_file ::
  "string \<Rightarrow> string \<Rightarrow> string \<Rightarrow> 'a world \<Rightarrow> (error + unit) \<times> 'a world" where
  "s3_download_file b k path w =
     (case map_of (s3_bucket w b) k of
        None \<Rightarrow> (Inl (LibraryError ''NoSuchKey''), logged (S3DownloadFile b k path) w)
      | Some body \<Rightarrow>
          (Inr (), logged (S3DownloadFile b k path) (w\<lparr>files := (files w)(path \<mapsto> body)\<rparr>)))"

text \<open>\<^verbatim>\<open>if os.path.exists(path): os.remove(path)\<close>\<close>

definition remove_if_exists :: "string \<Rightarrow> 'a world \<Rightarrow> 'a world" where
  "remove_if_exists path w =
     (if path \<in> dom (files w) then logged (FileRemove path) (w\<lparr>files := (files w)(path := None)\<rparr>)
      else w)"

text \<open>\<^verbatim>\<open>s.replace(old, '')\<close>: every occurrence of \<open>old\<close> is removed, left to right.\<close>

function remove_all :: "string \<Rightarrow> string \<Rightarrow> string" where
  "remove_all old s =
     (if old = [] \<or> s = [] then s
      else if prefix old s then remove_all old (drop (length old) s)
      else hd s # remove_all old (tl s))"
  by pat_completeness auto
termination
  by (relation "measure (\<lambda>(old, s). length s)") auto

text \<open>\<^verbatim>\<open>f"edge:{prefix}:{customer_id}:{suffix}"\<close>\<close>

definition get_cache_key :: "string \<Rightarrow> string \<Rightarrow> string \<Rightarrow> string" where
  "get_cache_key pre customer_id sfx = ''edge:'' @ pre @ '':'' @ customer_id @ '':'' @ sfx"


subsection \<open>forecastingApi: \<^verbatim>\<open>load_customer_model\<close>\<close>

text \<open>
  The library calls of the model loader; \<open>None\<close> is a raised exception.
  \<open>json_loads_bundle\<close> is \<^verbatim>\<open>json.loads\<close> of the string cached in Redis, as a dictionary
  (a value that is not a dictionary makes \<^verbatim>\<open>data['model']\<close> raise);
  \<open>json_loads_registry\<close> reads \<^verbatim>\<open>latest_model.json\<close>; \<open>json_loads_config\<close> the optional
  config; \<open>keras_load_model\<close> and \<open>joblib_load\<close> read a downloaded file;
  \<open>json_dumps_bundle\<close> is \<^verbatim>\<open>json.dumps({'model': .., 'encoders': .., 'config': ..}, default=str)\<close>.
\<close>

record 'a model_libs =
  json_loads_bundle :: "string \<Rightarrow> (string \<rightharpoonup> 'a) option"
  json_loads_registry :: "string \<Rightarrow> (string \<rightharpoonup> string) option"
  json_loads_config :: "string \<Rightarrow> 'a option"
  keras_load_model :: "string \<Rightarrow> 'a option"
  joblib_load :: "string \<Rightarrow> 'a option"
  json_dumps_bundle :: "'a \<Rightarrow> 'a \<Rightarrow> 'a option \<Rightarrow> string option"

type_synonym 'a model_bundle = "'a \<times> 'a \<times> 'a option"

text \<open>
  \<^verbatim>\<open># Try Redis cache first\<close>: a hit is a non-empty string that parses and has the keys
  \<^verbatim>\<open>model\<close> and \<^verbatim>\<open>encoders\<close>; every exception is caught and counts as a miss.
\<close>

definition try_redis_cache ::
  "'a model_libs \<Rightarrow> string \<Rightarrow> 'a world \<Rightarrow> 'a model_bundle option \<times> 'a world" where
  "try_redis_cache libs cache_key w =
     (if \<not> redis_client w then (None, w)
      else
        (case redis_get cache_key w of
           (Returns (Some cached_data), w') \<Rightarrow>
             (if cached_data = [] then (None, w')
              else
                (case json_loads_bundle libs cached_data of
                   None \<Rightarrow> (None, w')
                 | Some data \<Rightarrow>
                    (case (data ''model'', data ''encoders'') of
                       (Some m, Some e) \<Rightarrow> (Some (m, e, data ''config''), w')
                     | _ \<Rightarrow> (None, w'))))
         | (r, w') \<Rightarrow> (None, w')))"

text \<open>\<^verbatim>\<open>registry[key].replace(f's3://{Config.OUTPUT_BUCKET}/', '')\<close>\<close>

definition registry_path ::
  "(string \<rightharpoonup> string) \<Rightarrow> string \<Rightarrow> 'a world \<Rightarrow> (error + string) \<times> 'a world" where
  "registry_path registry key w =
     (case registry key of
        None \<Rightarrow> (Inl (KeyError key), w)
      | Some p \<Rightarrow> (Inr (remove_all (''s3://'' @ output_bucket w @ ''/'') p), w))"

definition lib_call :: "string \<Rightarrow> 'x option \<Rightarrow> 'a world \<Rightarrow> (error + 'x) \<times> 'a world" where
  "lib_call what r w = (case r of None \<Rightarrow> (Inl (LibraryError what), w) | Some x \<Rightarrow> (Inr x, w))"

text \<open>The file a library call reads; a missing file makes the call raise.\<close>

definition read_file :: "string \<Rightarrow> 'a world \<Rightarrow> (error + string) \<times> 'a world" where
  "read_file path w =
     (case files w path of None \<Rightarrow> (Inl (LibraryError ''FileNotFound''), w)
      | Some body \<Rightarrow> (Inr body, w))"

text \<open>\<^verbatim>\<open># Cache in Redis\<close>: the \<^verbatim>\<open>try\<close> swallows every exception.\<close>

definition cache_bundle_in_redis ::
  "'a model_libs \<Rightarrow> string \<Rightarrow> 'a model_bundle \<Rightarrow> 'a world \<Rightarrow> 'a world" where
  "cache_bundle_in_redis libs cache_key b w =
     (if \<not> redis_client w then w
      else
        (case b of (m, e, c) \<Rightarrow>
          (case json_dumps_bundle libs m e c of
             None \<Rightarrow> w
           | Some payload \<Rightarrow> snd (redis_setex cache_key payload w))))"

text \<open>The \<^verbatim>\<open>try\<close> block that loads from S3; the \<^verbatim>\<open>except\<close> logs and re-raises.\<close>

definition load_from_s3 ::
  "'a model_libs \<Rightarrow> string \<Rightarrow> string \<Rightarrow> 'a world \<Rightarrow> (error + 'a model_bundle) \<times> 'a world" where
  "load_from_s3 libs customer_id cache_key w0 =
     (let registry_key = ''customer_tailored/'' @ customer_id @ ''/latest_model.json'';
          local_model_path = ''/tmp/model_'' @ customer_id @ ''.h5'';
          local_encoders_path = ''/tmp/encoders_'' @ customer_id @ ''.pkl''
      in
      and_then (\<lambda>w. s3_get_object (output_bucket w) registry_key w) (\<lambda>body.
      and_then (lib_call ''json.loads'' (json_loads_registry libs body)) (\<lambda>registry.
      and_then (registry_path registry ''model_path'') (\<lambda>model_path.
      and_then (\<lambda>w. s3_download_file (output_bucket w) model_path local_model_path w) (\<lambda>u.
      and_then (read_file local_model_path) (\<lambda>model_bytes.
      and_then (lib_call ''load_model'' (keras_load_model libs model_bytes)) (\<lambda>model.
      and_then (registry_path registry ''encoders_path'') (\<lambda>encoders_path.
      and_then (\<lambda>w. s3_download_file (output_bucket w) encoders_path local_encoders_path w) (\<lambda>u.
      and_then (read_file local_encoders_path) (\<lambda>encoders_bytes.
      and_then (lib_call ''joblib.load'' (joblib_load libs encoders_bytes)) (\<lambda>encoders.
      and_then
        (case registry ''config_path'' of
           None \<Rightarrow> (\<lambda>w. (Inr None, w))
         | Some p \<Rightarrow>
            and_then (registry_path registry ''config_path'') (\<lambda>config_path.
            and_then (\<lambda>w. s3_get_object (output_bucket w) config_path w) (\<lambda>config_body.
            and_then (lib_call ''json.loads'' (json_loads_config libs config_body)) (\<lambda>c w.
              (Inr (Some c), w)))))
        (\<lambda>config w.
          (let w = w\<lparr>model_cache := (model_cache w)(customer_id \<mapsto> model),
                      encoders_cache := (encoders_cache w)(customer_id \<mapsto> encoders),
                      config_cache := (config_cache w)(customer_id \<mapsto> config)\<rparr>;
               w = cache_bundle_in_redis libs cache_key (model, encoders, config) w;
               w = remove_if_exists local_model_path w;
               w = remove_if_exists local_encoders_path w
           in (Inr (model, encoders, config), w))))))))))))) w0)"

text \<open>The whole function: Redis first, then the memory cache, then S3.\<close>

definition load_customer_model ::
  "'a model_libs \<Rightarrow> string \<Rightarrow> 'a world \<Rightarrow> (error + 'a model_bundle) \<times> 'a world" where
  "load_customer_model libs customer_id w0 =
     (let cache_key = get_cache_key ''model'' customer_id []
      in
      (case try_redis_cache libs cache_key w0 of
         (Some b, w) \<Rightarrow> (Inr b, w)
       | (None, w1) \<Rightarrow>
          (let w = logged (MemoryLookup customer_id) w1
           in
           if customer_id \<in> dom (model_cache w) then
             (case (model_cache w customer_id, encoders_cache w customer_id) of
                (Some m, Some e) \<Rightarrow>
                  (Inr (m, e, case config_cache w customer_id of None \<Rightarrow> None | Some c \<Rightarrow> c), w)
              | _ \<Rightarrow> (Inl (KeyError customer_id), w))
           else if \<not> s3_client w then (Inl S3Unavailable, w)
           else load_from_s3 libs customer_id cache_key w)))"

text \<open>
  Step 1 of \<^verbatim>\<open>generate_forecast\<close>: the handler looks into the memory cache itself and
  calls \<^verbatim>\<open>load_customer_model\<close> only for a customer that is not there, storing what
  it returns.
\<close>

definition resolve_model ::
  "'a model_libs \<Rightarrow> string \<Rightarrow> 'a world \<Rightarrow> (error + 'a model_bundle) \<times> 'a world" where
  "resolve_model libs customer_id w0 =
     (let w = logged (MemoryLookup customer_id) w0
      in
      if customer_id \<notin> dom (model_cache w) then
        (case load_customer_model libs customer_id w of
           (Inl e, w') \<Rightarrow> (Inl e, w')
         | (Inr (model, encoders, config), w') \<Rightarrow>
             (Inr (model, encoders, config),
              w'\<lparr>model_cache := (model_cache w')(customer_id \<mapsto> model),
                  encoders_cache := (encoders_cache w')(customer_id \<mapsto> encoders),
                  config_cache := (config_cache w')(customer_id \<mapsto> config)\<rparr>))
      else
        (case (model_cache w customer_id, encoders_cache w customer_id) of
           (Some m, Some e) \<Rightarrow>
             (Inr (m, e, case config_cache w customer_id of None \<Rightarrow> None | Some c \<Rightarrow> c), w)
         | _ \<Rightarrow> (Inl (KeyError customer_id), w)))"


subsection \<open>forecastingApi: \<^verbatim>\<open>get_recent_customer_data\<close>\<close>

text \<open>Decimal rendering of an integer, as in an f-string.\<close>

function str_nat :: "nat \<Rightarrow> string" where
  "str_nat n =
     (if n < 10 then [char_of (48 + n)] else str_nat (n div 10) @ [char_of (48 + n mod 10)])"
  by pat_completeness auto
termination
  by (relation "measure id") auto

definition str_int :: "int \<Rightarrow> string" where
  "str_int i = (if i < 0 then ''-'' @ str_nat (nat (- i)) else str_nat (nat i))"

text \<open>
  The pandas calls of the data loader; \<open>None\<close> is a raised exception.
  \<open>pd_read_json\<close> reads the string cached in Redis, \<open>pd_read_csv\<close> the decoded S3
  object, \<open>df_to_json\<close> is \<^verbatim>\<open>recent_df.to_json()\<close>. \<open>pd_to_datetime\<close> converts the
  \<^verbatim>\<open>timestamp\<close> column and tells whether the converted column carries a timezone
  (\<^verbatim>\<open>datetime64[ns, tz]\<close>, as for strings with an offset or a trailing \<^verbatim>\<open>Z\<close>) or is
  naive (\<^verbatim>\<open>datetime64[ns]\<close>). \<open>wide_compare\<close> tells whether this pandas compares a
  datetime column with a \<^verbatim>\<open>datetime\<close> outside the range of its nanosecond timestamps
  (1677-09-21 to 2262-04-11), as pandas 2 does; pandas 1 raises
  \<^verbatim>\<open>OutOfBoundsDatetime\<close> there.
\<close>

datatype tz = Naive | Aware

record data_libs =
  pd_read_json :: "string \<Rightarrow> frame option"
  pd_read_csv :: "string \<Rightarrow> frame option"
  pd_to_datetime :: "cell list \<Rightarrow> (tz \<times> cell list) option"
  wide_compare :: bool
  df_to_json :: "frame \<Rightarrow> string option"

text \<open>\<^verbatim>\<open>df[mask]\<close>: the rows whose mask is true, in order.\<close>

definition filter_rows :: "bool list \<Rightarrow> frame \<Rightarrow> frame" where
  "filter_rows keep df =
     \<lparr>nrows = length (filter id keep),
      cols = map (\<lambda>(c, xs). (c, map fst (filter snd (zip xs keep)))) (cols df)\<rparr>"

text \<open>
  \<^verbatim>\<open>df.tail(n)\<close>: the last \<open>n\<close> rows; no row for \<open>n = 0\<close>; all rows but the first
  \<open>-n\<close> for a negative \<open>n\<close>.
\<close>

definition tail :: "int \<Rightarrow> frame \<Rightarrow> frame" where
  "tail n df =
     (let k = (if n \<ge> 0 then min (nat n) (nrows df) else nrows df - nat (- n))
      in \<lparr>nrows = k, cols = map (\<lambda>(c, xs). (c, drop (length xs - k) xs)) (cols df)\<rparr>)"

text \<open>
  \<^verbatim>\<open>datetime.now() - timedelta(hours=hours)\<close>, in seconds since the epoch.
  \<^verbatim>\<open>timedelta\<close> raises \<^verbatim>\<open>OverflowError\<close> when its number of days, \<open>hours div 24\<close>,
  has a magnitude above 999999999, and the subtraction raises \<^verbatim>\<open>OverflowError\<close> when
  the result is not a date of the years 1 to 9999 (\<open>datetime_min\<close> is
  0001-01-01T00:00:00, \<open>datetime_max\<close> is 9999-12-31T23:59:59).
\<close>

definition datetime_min :: int where
  "datetime_min = - 62135596800"

definition datetime_max :: int where
  "datetime_max = 253402300799"

definition cutoff_before :: "int \<Rightarrow> int \<Rightarrow> error + int" where
  "cutoff_before now hours =
     (if hours div 24 < - 999999999 \<or> 999999999 < hours div 24 then Inl OverflowError
      else
        (let t = now - 3600 * hours
         in if t < datetime_min \<or> datetime_max < t then Inl OverflowError else Inr t))"

text \<open>
  \<^verbatim>\<open>df['timestamp'] >= cutoff_time\<close> for the naive \<^verbatim>\<open>datetime\<close> \<open>cutoff_time\<close>.
  \<open>at_or_after\<close> is the mask on a naive column: false for a missing timestamp.
  pandas raises \<^verbatim>\<open>TypeError\<close> when the column is timezone-aware, and pandas 1 raises
  when the cutoff is outside the nanosecond range (\<open>in_ns_range\<close>, in whole seconds).
\<close>

definition at_or_after :: "int \<Rightarrow> cell list \<Rightarrow> bool list" where
  "at_or_after cutoff ts = map (\<lambda>c. case c of TS t \<Rightarrow> t \<ge> cutoff | _ \<Rightarrow> False) ts"

definition in_ns_range :: "int \<Rightarrow> bool" where
  "in_ns_range t \<longleftrightarrow> - 9223372036 \<le> t \<and> t \<le> 9223372036"

definition series_ge :: "data_libs \<Rightarrow> tz \<Rightarrow> cell list \<Rightarrow> int \<Rightarrow> error + bool list" where
  "series_ge libs z ts cutoff =
     (if \<not> in_ns_range cutoff \<and> \<not> wide_compare libs
      then Inl (LibraryError ''OutOfBoundsDatetime'')
      else if z = Aware then Inl TypeError
      else Inr (at_or_after cutoff ts))"

text \<open>
  \<^verbatim>\<open># Get recent data (last N hours)\<close>, on the sorted frame with its timestamp column
  \<open>ts\<close>: the rows at or after the cutoff, or, when there is none, the last \<open>hours\<close>
  rows.
\<close>

definition select_recent ::
  "data_libs \<Rightarrow> int \<Rightarrow> int \<Rightarrow> tz \<Rightarrow> frame \<Rightarrow> cell list \<Rightarrow> error + frame" where
  "select_recent libs now hours z df ts =
     (case cutoff_before now hours of
        Inl e \<Rightarrow> Inl e
      | Inr cutoff_time \<Rightarrow>
          (case series_ge libs z ts cutoff_time of
             Inl e \<Rightarrow> Inl e
           | Inr keep \<Rightarrow>
               (let recent_df = filter_rows keep df
                in Inr (if nrows recent_df = 0 then tail hours df else recent_df))))"

text \<open>\<^verbatim>\<open># Try Redis cache first\<close>: a non-empty string that \<^verbatim>\<open>pd.read_json\<close> reads.\<close>

definition try_redis_data ::
  "data_libs \<Rightarrow> string \<Rightarrow> 'a world \<Rightarrow> frame option \<times> 'a world" where
  "try_redis_data libs cache_key w =
     (if \<not> redis_client w then (None, w)
      else
        (case redis_get cache_key w of
           (Returns (Some cached_data), w') \<Rightarrow>
             (if cached_data = [] then (None, w') else (pd_read_json libs cached_data, w'))
         | (r, w') \<Rightarrow> (None, w')))"

text \<open>
  \<^verbatim>\<open>s3.list_objects_v2(Bucket, Prefix)\<close>: the keys with the prefix, at most 1000 of them
  (one page).
\<close>

definition s3_list_objects :: "string \<Rightarrow> string \<Rightarrow> 'a world \<Rightarrow> string list \<times> 'a world" where
  "s3_list_objects b pre w =
     (take 1000 (filter (prefix pre) (map fst (s3_bucket w b))), logged (S3ListObjects b pre) w)"

text \<open>The loop that finds the customer's \<^verbatim>\<open>total_load.csv\<close>: the first matching key.\<close>

definition find_customer_file :: "string \<Rightarrow> string list \<Rightarrow> string option" where
  "find_customer_file customer_id keys =
     find (\<lambda>k. suffix ''total_load.csv'' k \<and> sublist (''/'' @ customer_id @ ''/'') k) keys"

text \<open>
  From the listing to \<^verbatim>\<open>df.sort_values('timestamp')\<close>: the customer's stored series,
  in time order, with the timezone-awareness of its timestamp column. A parsed frame
  is well-formed and a converted column is a datetime column of the same length;
  anything else counts as a raise of the library.
\<close>

definition load_series ::
  "data_libs \<Rightarrow> string \<Rightarrow> 'a world \<Rightarrow> (error + tz \<times> frame) \<times> 'a world" where
  "load_series libs customer_id =
     and_then (\<lambda>w. case s3_list_objects (input_bucket w) ''total/'' w of
                     (keys, w') \<Rightarrow>
                       if keys = [] then (Inl (NoDataFound customer_id), w')
                       else (case find_customer_file customer_id keys of
                               None \<Rightarrow> (Inl (NoDataFound customer_id), w')
                             | Some k \<Rightarrow> (Inr k, w'))) (\<lambda>customer_file.
     and_then (\<lambda>w. s3_get_object (input_bucket w) customer_file w) (\<lambda>body.
     and_then (lib_call ''read_csv'' (pd_read_csv libs body)) (\<lambda>df w.
       if \<not> wf_frame df then (Inl (LibraryError ''read_csv''), w)
       else
         (case get_col df ''timestamp'' of
            None \<Rightarrow> (Inl (KeyError ''timestamp''), w)
          | Some raw \<Rightarrow>
             (case pd_to_datetime libs raw of
                None \<Rightarrow> (Inl (LibraryError ''to_datetime''), w)
              | Some (z, ts) \<Rightarrow>
                  if length ts \<noteq> nrows df \<or> \<not> datetimelike ts
                  then (Inl (LibraryError ''to_datetime''), w)
                  else
                    (case sort_values (set_col df ''timestamp'' ts) ''timestamp'' of
                       Inl e \<Rightarrow> (Inl e, w)
                     | Inr sorted_df \<Rightarrow> (Inr (z, sorted_df), w)))))))"

text \<open>\<^verbatim>\<open># Cache in Redis\<close>: the \<^verbatim>\<open>try\<close> swallows every exception.\<close>

definition cache_data_in_redis :: "data_libs \<Rightarrow> string \<Rightarrow> frame \<Rightarrow> 'a world \<Rightarrow> 'a world" where
  "cache_data_in_redis libs cache_key df w =
     (if \<not> redis_client w then w
      else
        (case df_to_json libs df of
           None \<Rightarrow> w
         | Some payload \<Rightarrow> snd (redis_setex cache_key payload w)))"

definition get_recent_customer_data ::
  "data_libs \<Rightarrow> string \<Rightarrow> int \<Rightarrow> 'a world \<Rightarrow> (error + frame) \<times> 'a world" where
  "get_recent_customer_data libs customer_id hours w0 =
     (let cache_key = get_cache_key ''data'' customer_id (''recent_'' @ str_int hours @ ''h'')
      in
      (case try_redis_data libs cache_key w0 of
         (Some df, w) \<Rightarrow> (Inr df, w)
       | (None, w) \<Rightarrow>
          if \<not> s3_client w then (Inl S3Unavailable, w)
          else
            and_then (load_series libs customer_id) (\<lambda>(z, df) w.
              (case get_col df ''timestamp'' of
                 None \<Rightarrow> (Inl (KeyError ''timestamp''), w)
               | Some ts \<Rightarrow>
                  (case select_recent libs (clock w) hours z df ts of
                     Inl e \<Rightarrow> (Inl e, w)
                   | Inr recent_df \<Rightarrow>
                       (Inr recent_df, cache_data_in_redis libs cache_key recent_df w)))) w))"


subsection \<open>Traces\<close>

text \<open>
  \<open>appends P w w'\<close>: the run from \<open>w\<close> to \<open>w'\<close> has only added calls satisfying \<open>P\<close> to
  the trace. \<open>steps P m\<close>: every run of the step \<open>m\<close> does so.
\<close>

definition appends :: "(event \<Rightarrow> bool) \<Rightarrow> 'a world \<Rightarrow> 'a world \<Rightarrow> bool" where
  "appends P w w' \<longleftrightarrow> (\<exists>evs. trace w' = trace w @ evs \<and> list_all P evs)"

definition steps :: "(event \<Rightarrow> bool) \<Rightarrow> ('a world \<Rightarrow> 'r \<times> 'a world) \<Rightarrow> bool" where
  "steps P m \<longleftrightarrow> (\<forall>w. appends P w (snd (m w)))"

text \<open>A call that reads neither the memory cache nor Redis.\<close>

definition no_cache_read :: "event \<Rightarrow> bool" where
  "no_cache_read ev \<longleftrightarrow> consulted ev \<noteq> Some Memory \<and> consulted ev \<noteq> Some Distributed"


subsection \<open>Example inputs\<close>

text \<open>
  A label encoder as scikit-learn fits it: a known category is mapped to its index
  in \<open>classes\<close>, any other value makes \<^verbatim>\<open>transform\<close> raise.
\<close>

fun index_of :: "'a list \<Rightarrow> 'a \<Rightarrow> nat" where
  "index_of [] x = 0"
| "index_of (y # ys) x = (if x = y then 0 else Suc (index_of ys x))"

definition label_encoder :: "string list \<Rightarrow> encoder" where
  "label_encoder classes xs =
     (if \<forall>c \<in> set xs. case c of Str s \<Rightarrow> s \<in> set classes | _ \<Rightarrow> False
      then Some (map (\<lambda>c. case c of Str s \<Rightarrow> Num (real (index_of classes s)) | _ \<Rightarrow> NA) xs)
      else None)"


text \<open>Three rows out of time order, with a missing timestamp and a missing reading.\<close>

definition frame_gap :: frame where
  "frame_gap = \<lparr>nrows = 3,
     cols = [(''timestamp'', [TS 7200, TS 0, NA]), (''kWh'', [Num 1, NA, Num 4])]\<rparr>"


text \<open>
  A frame without a \<^verbatim>\<open>customer_id\<close> column, and a bundle whose customer encoder knows
  the customers \<^verbatim>\<open>alpha\<close> and \<^verbatim>\<open>beta\<close>.
\<close>

definition frame_no_customer :: frame where
  "frame_no_customer = \<lparr>nrows = 2, cols = [(''timestamp'', [TS 0, TS 3600])]\<rparr>"

definition encoders_ab :: "string \<rightharpoonup> encoder" where
  "encoders_ab = [''customer_encoder'' \<mapsto> label_encoder [''alpha'', ''beta'']]"

text \<open>
  A frame with a manufacturer the encoder has not seen, no region column, and a
  bundle without a customer encoder.
\<close>

definition frame_mfg :: frame where
  "frame_mfg = \<lparr>nrows = 2,
     cols = [(''timestamp'', [TS 0, TS 3600]),
             (''manufacturer'', [Str ''acme'', Str ''zeta''])]\<rparr>"

definition encoders_acme :: "string \<rightharpoonup> encoder" where
  "encoders_acme = [''manufacturer_encoder'' \<mapsto> label_encoder [''acme'']]"



text \<open>
  A store with one customer file; the libraries read it as the given frame, whose
  timestamps are timestamps already, naive or timezone-aware as \<open>z\<close> says. No Redis
  client.
\<close>

definition data_world :: "int \<Rightarrow> unit world" where
  "data_world now =
     \<lparr>redis_client = False, redis_up = False, redis_data = Map.empty, s3_client = True,
      s3_bucket = (\<lambda>b. if b = ''in'' then [(''total/c1/total_load.csv'', ''csv'')] else []),
      input_bucket = ''in'', output_bucket = ''out'',
      model_cache = Map.empty, encoders_cache = Map.empty, config_cache = Map.empty,
      files = Map.empty, clock = now, trace = []\<rparr>"

definition libs_frame :: "tz \<Rightarrow> frame \<Rightarrow> data_libs" where
  "libs_frame z df =
     \<lparr>pd_read_json = (\<lambda>s. None), pd_read_csv = (\<lambda>s. Some df),
      pd_to_datetime = (\<lambda>raw. Some (z, raw)), wide_compare = False,
      df_to_json = (\<lambda>df. None)\<rparr>"

text \<open>
  Five records stored out of time order, all long before the time 1000000; the same
  five in time order; and a series whose latest record lies after the time 1000000.
\<close>

definition frame_five :: frame where
  "frame_five = \<lparr>nrows = 5,
     cols = [(''timestamp'', [TS 300, TS 100, TS 500, TS 200, TS 400]),
             (''kWh'', [Num 3, Num 1, Num 5, Num 2, Num 4])]\<rparr>"

definition frame_five_sorted :: frame where
  "frame_five_sorted = \<lparr>nrows = 5,
     cols = [(''timestamp'', [TS 100, TS 200, TS 300, TS 400, TS 500]),
             (''kWh'', [Num 1, Num 2, Num 3, Num 4, Num 5])]\<rparr>"

definition frame_old_future :: frame where
  "frame_old_future = \<lparr>nrows = 4,
     cols = [(''timestamp'', [TS 300, TS 2000000, TS 100, TS 200]),
             (''kWh'', [Num 3, Num 6, Num 1, Num 2])]\<rparr>"

definition frame_old_future_sorted :: frame where
  "frame_old_future_sorted = \<lparr>nrows = 4,
     cols = [(''timestamp'', [TS 100, TS 200, TS 300, TS 2000000]),
             (''kWh'', [Num 1, Num 2, Num 3, Num 6])]\<rparr>"

text \<open>
  A bundle cached in Redis and another one in the memory cache, for the same
  customer. Objects are strings here.
\<close>

definition libs_plain :: "string model_libs" where
  "libs_plain =
     \<lparr>json_loads_bundle = (\<lambda>s. Some [''model'' \<mapsto> ''redis_model'', ''encoders'' \<mapsto> ''redis_enc'']),
      json_loads_registry =
        (\<lambda>s. Some [''model_path'' \<mapsto> ''s3://out/m.h5'', ''encoders_path'' \<mapsto> ''s3://out/e.pkl'']),
      json_loads_config = Some,
      keras_load_model = Some,
      joblib_load = Some,
      json_dumps_bundle = (\<lambda>m e c. Some ''{...}'')\<rparr>"

definition world_both :: "string world" where
  "world_both =
     \<lparr>redis_client = True, redis_up = True,
      redis_data = [''edge:model:c1:'' \<mapsto> ''{...}''],
      s3_client = True, s3_bucket = (\<lambda>b. []),
      input_bucket = ''in'', output_bucket = ''out'',
      model_cache = [''c1'' \<mapsto> ''memory_model''],
      encoders_cache = [''c1'' \<mapsto> ''memory_enc''],
      config_cache = Map.empty,
      files = Map.empty, clock = 0, trace = []\<rparr>"

text \<open>The same Redis content with empty memory caches.\<close>

definition world_redis_only :: "string world" where
  "world_redis_only =
     world_both\<lparr>model_cache := Map.empty, encoders_cache := Map.empty\<rparr>"

text \<open>
  Nothing cached; the output bucket holds the registry document and the model
  weights, but not the encoders the registry names.
\<close>

definition world_no_encoders :: "string world" where
  "world_no_encoders =
     \<lparr>redis_client = False, redis_up = False, redis_data = Map.empty,
      s3_client = True,
      s3_bucket = (\<lambda>b. if b = ''out''
                        then [(''customer_tailored/c1/latest_model.json'', ''{registry}''),
                              (''m.h5'', ''WEIGHTS'')]
                        else []),
      input_bucket = ''in'', output_bucket = ''out'',
      model_cache = Map.empty, encoders_cache = Map.empty, config_cache = Map.empty,
      files = Map.empty, clock = 0, trace = []\<rparr>"


section \<open>Properties\<close>

subsection \<open>Freshness\<close>

lemma error_reason_not_spec: "''Error: '' @ e \<notin> spec_reasons"
  by (simp add: spec_reasons_def)

text \<open>
  C6, as stated, fails: the reported reason is not always one of the three enumerated
  ones. An updater without a Redis client reports \<^verbatim>\<open>'Redis not available'\<close>.
\<close>

theorem check_model_freshness_reason_counterexample:
  "reason (check_model_freshness env_no_redis ''default'') = ''Redis not available''
   \<and> needs_update (check_model_freshness env_no_redis ''default'')
   \<and> ''Redis not available'' \<notin> spec_reasons"
  by (simp add: check_model_freshness_def env_no_redis_def spec_reasons_def)

text \<open>
  C6, amended. When the Redis client exists and its read returns: an absent (or empty)
  record reports \<^verbatim>\<open>needs_update = True\<close> with reason \<^verbatim>\<open>'No cached model'\<close>; a record
  whose \<^verbatim>\<open>updated_at\<close> parses to \<open>t\<close> reports \<^verbatim>\<open>needs_update = True\<close>,
  \<^verbatim>\<open>'Model older than 7 days'\<close> when \<open>now - t\<close> exceeds seven days, and
  \<^verbatim>\<open>needs_update = False\<close>, \<^verbatim>\<open>'Model is fresh'\<close> otherwise, so the result depends only on
  \<open>t\<close> and \<open>now\<close>. The reason is one of these three exactly when the client exists,
  the read returns and the record (if any) parses; otherwise it is
  \<^verbatim>\<open>'Redis not available'\<close> or \<^verbatim>\<open>'Error: ...'\<close>, with \<^verbatim>\<open>needs_update = True\<close>.
\<close>

theorem check_model_freshness_cases:
  "(upd_redis env = Some get \<and> get (updater_cache_key c) = Returns cached
      \<and> (cached = None \<or> cached = Some []) \<longrightarrow>
      check_model_freshness env c =
        \<lparr>needs_update = True, reason = ''No cached model'', updated_at = None\<rparr>)
   \<and> (upd_redis env = Some get \<and> get (updater_cache_key c) = Returns (Some s) \<and> s \<noteq> []
      \<and> upd_parse env s = Returns t \<and> upd_now env - t > seven_days \<longrightarrow>
      check_model_freshness env c =
        \<lparr>needs_update = True, reason = ''Model older than 7 days'', updated_at = None\<rparr>)
   \<and> (upd_redis env = Some get \<and> get (updater_cache_key c) = Returns (Some s) \<and> s \<noteq> []
      \<and> upd_parse env s = Returns t \<and> upd_now env - t \<le> seven_days \<longrightarrow>
      check_model_freshness env c =
        \<lparr>needs_update = False, reason = ''Model is fresh'', updated_at = Some t\<rparr>)
   \<and> (reason (check_model_freshness env c) \<in> spec_reasons \<longleftrightarrow>
        (\<exists>get cached. upd_redis env = Some get
           \<and> get (updater_cache_key c) = Returns cached
           \<and> (cached = None \<or> cached = Some []
               \<or> (\<exists>s t. cached = Some s \<and> upd_parse env s = Returns t))))
   \<and> (reason (check_model_freshness env c) \<in> spec_reasons
        \<or> (needs_update (check_model_freshness env c)
            \<and> (reason (check_model_freshness env c) = ''Redis not available''
                 \<or> (\<exists>e. reason (check_model_freshness env c) = ''Error: '' @ e))))"
  by (auto simp: check_model_freshness_def spec_reasons_def
      split: option.splits outcome.splits)

text \<open>
  C6 at the specification's examples: a record eight days old, one six days old, and
  no record.
\<close>

theorem check_model_freshness_cases_witness:
  "check_model_freshness (env_cached ''default'' 0 (8 * 86400000000)) ''default'' =
     \<lparr>needs_update = True, reason = ''Model older than 7 days'', updated_at = None\<rparr>
   \<and> check_model_freshness (env_cached ''default'' 0 (6 * 86400000000)) ''default'' =
     \<lparr>needs_update = False, reason = ''Model is fresh'', updated_at = Some 0\<rparr>
   \<and> check_model_freshness (env_cached ''other'' 0 0) ''default'' =
     \<lparr>needs_update = True, reason = ''No cached model'', updated_at = None\<rparr>"
proof -
  let ?get = "\<lambda>c k. Returns (if k = updater_cache_key c then Some ''{...}'' else None)"
  let ?e8 = "env_cached ''default'' 0 (8 * 86400000000)"
  let ?e6 = "env_cached ''default'' 0 (6 * 86400000000)"
  let ?e0 = "env_cached ''other'' 0 0"
  have h8: "upd_redis ?e8 = Some (?get ''default'')
      \<and> ?get ''default'' (updater_cache_key ''default'') = Returns (Some ''{...}'')
      \<and> ''{...}'' \<noteq> [] \<and> upd_parse ?e8 ''{...}'' = Returns 0
      \<and> upd_now ?e8 - 0 > seven_days"
    by (simp add: env_cached_def seven_days_def)
  have h6: "upd_redis ?e6 = Some (?get ''default'')
      \<and> ?get ''default'' (updater_cache_key ''default'') = Returns (Some ''{...}'')
      \<and> ''{...}'' \<noteq> [] \<and> upd_parse ?e6 ''{...}'' = Returns 0
      \<and> upd_now ?e6 - 0 \<le> seven_days"
    by (simp add: env_cached_def seven_days_def)
  have h0: "upd_redis ?e0 = Some (?get ''other'')
      \<and> ?get ''other'' (updater_cache_key ''default'') = Returns None
      \<and> (None = None \<or> None = Some [])"
    by (simp add: env_cached_def updater_cache_key_def)
  from h8 check_model_freshness_cases [of ?e8 "?get ''default''" "''default''" _ "''{...}''" 0]
  have r8: "check_model_freshness ?e8 ''default'' =
     \<lparr>needs_update = True, reason = ''Model older than 7 days'', updated_at = None\<rparr>"
    by blast
  from h6 check_model_freshness_cases [of ?e6 "?get ''default''" "''default''" _ "''{...}''" 0]
  have r6: "check_model_freshness ?e6 ''default'' =
     \<lparr>needs_update = False, reason = ''Model is fresh'', updated_at = Some 0\<rparr>"
    by blast
  from h0 check_model_freshness_cases [of ?e0 "?get ''other''" "''default''" None]
  have r0: "check_model_freshness ?e0 ''default'' =
     \<lparr>needs_update = True, reason = ''No cached model'', updated_at = None\<rparr>"
    by blast
  from r8 r6 r0 show ?thesis by blast
qed


subsection \<open>Forecast assembly\<close>

lemma py_index_from_end:
  "i < length xs \<Longrightarrow> py_index xs (- (int (length xs) - int i)) = Inr (xs ! i)"
  by (simp add: py_index_def Let_def)

lemma forecast_entry_at_eq:
  "i < length predictions \<Longrightarrow>
   forecast_entry_at predictions latest T targets i =
     Inr \<lparr>fc_timestamp = T + 3600 * (int i + 1), fc_hour_ahead = int i + 1,
          fc_targets = target_entries targets (predictions ! i)\<rparr>"
  using py_index_from_end [of i predictions] by (simp add: forecast_entry_at_def)

lemma forecast_loop_eq:
  "\<forall>i \<in> set is. i < length predictions \<Longrightarrow>
   forecast_loop predictions latest T targets is acc =
     Inr (acc @ map (\<lambda>i. \<lparr>fc_timestamp = T + 3600 * (int i + 1), fc_hour_ahead = int i + 1,
          fc_targets = target_entries targets (predictions ! i)\<rparr>) is)"
  by (induction "is" arbitrary: acc) (simp_all add: forecast_entry_at_eq)

text \<open>
  What the assembler computes on a non-empty prediction list: \<open>min H n\<close> entries, the
  entry for \<open>hour_ahead = i + 1\<close> at \<open>T + (i + 1)\<close> hours, carrying \<open>predictions ! i\<close>,
  the prediction of the \<open>i\<close>-th window counted from the oldest.
\<close>

lemma assemble_forecasts_eq:
  assumes "predictions \<noteq> []"
  shows "assemble_forecasts predictions T H targets =
     Inr (map (\<lambda>i. \<lparr>fc_timestamp = T + 3600 * (int i + 1), fc_hour_ahead = int i + 1,
          fc_targets = target_entries targets (predictions ! i)\<rparr>)
        [0..<nat (min H (int (length predictions)))])"
proof -
  have "py_index predictions (- 1) = Inr (predictions ! (length predictions - 1))"
    using assms by (cases predictions) (auto simp: py_index_def Let_def nat_diff_distrib)
  moreover have "\<forall>i \<in> set [0..<nat (min H (int (length predictions)))]. i < length predictions"
    by auto
  ultimately show ?thesis
    by (simp add: assemble_forecasts_def forecast_loop_eq)
qed

text \<open>
  C1 at the specification's example. Three entries come out, at 09:00, 10:00 and 11:00
  with \<^verbatim>\<open>hour_ahead\<close> 1, 2, 3, but they carry 10, 11 and 12, the predictions of the three
  oldest windows: the latest window's prediction, 14, which the claim assigns to
  \<^verbatim>\<open>hour_ahead = 1\<close>, is not used at all.
\<close>

theorem assemble_forecasts_example:
  "assemble_forecasts example_predictions example_T 3 [''kWh''] =
     Inr [\<lparr>fc_timestamp = example_T + 3600, fc_hour_ahead = 1,
           fc_targets = [(''kWh_forecast'', 10)]\<rparr>,
          \<lparr>fc_timestamp = example_T + 7200, fc_hour_ahead = 2,
           fc_targets = [(''kWh_forecast'', 11)]\<rparr>,
          \<lparr>fc_timestamp = example_T + 10800, fc_hour_ahead = 3,
           fc_targets = [(''kWh_forecast'', 12)]\<rparr>]
   \<and> last example_predictions = [14]"
  by (simp add: assemble_forecasts_def example_predictions_def py_index_def
      forecast_entry_at_def target_entries_def upt_conv_Cons)


subsection \<open>Frames\<close>

lemma nrows_set_col [simp]: "nrows (set_col df c xs) = nrows df"
  by (simp add: set_col_def)

lemma get_col_set_col [simp]:
  "get_col (set_col df c xs) c' = (if c' = c then Some xs else get_col df c')"
  by (simp add: get_col_def set_col_def update_conv')

lemma has_col_iff: "has_col df c \<longleftrightarrow> get_col df c \<noteq> None"
  by (simp add: has_col_def get_col_def map_of_eq_None_iff)

lemma wf_frame_col_length:
  "wf_frame df \<Longrightarrow> get_col df c = Some xs \<Longrightarrow> length xs = nrows df"
  by (force simp: wf_frame_def get_col_def dest: map_of_SomeD)

lemma set_update_subset: "set (AList.update k v al) \<subseteq> insert (k, v) (set al)"
  by (induction al) auto

lemma wf_set_col [simp]:
  assumes "wf_frame df" and "length xs = nrows df"
  shows "wf_frame (set_col df c xs)"
proof -
  have "length ys = nrows df" if "(k, ys) \<in> set (AList.update c xs (cols df))" for k ys
  proof -
    from that set_update_subset [of c xs "cols df"]
    have "(k, ys) = (c, xs) \<or> (k, ys) \<in> set (cols df)" by auto
    with assms show ?thesis by (force simp: wf_frame_def)
  qed
  moreover have "distinct (map fst (AList.update c xs (cols df)))"
    using assms(1) by (simp add: wf_frame_def distinct_update)
  ultimately show ?thesis by (auto simp: wf_frame_def set_col_def)
qed

lemma sort_values_nrows: "sort_values df c = Inr sdf \<Longrightarrow> nrows sdf = nrows df"
  by (auto simp: sort_values_def Let_def split: option.splits if_splits)

lemma length_broadcast [simp]: "length (broadcast df v) = nrows df"
  by (simp add: broadcast_def)

lemma nrows_map_cols [simp]: "nrows (map_cols g df) = nrows df"
  by (simp add: map_cols_def)

lemma get_col_map_cols [simp]: "get_col (map_cols g df) c = map_option g (get_col df c)"
  by (simp add: map_cols_def get_col_def map_of_map)

lemma map_fst_map_cols: "map fst (cols (map_cols g df)) = map fst (cols df)"
  by (simp add: map_cols_def comp_def case_prod_beta)

lemma wf_map_cols:
  "wf_frame df \<Longrightarrow> (\<And>xs. length xs = nrows df \<Longrightarrow> length (g xs) = nrows df)
    \<Longrightarrow> wf_frame (map_cols g df)"
  unfolding wf_frame_def by (auto simp: map_fst_map_cols) (auto simp: map_cols_def)

lemma sort_values_map_cols:
  "sort_values df c = Inr sdf \<Longrightarrow>
   \<exists>perm. set perm = {0..<nrows df} \<and> length perm = nrows df
      \<and> sdf = map_cols (\<lambda>xs. map ((!) xs) perm) df"
  by (auto simp: sort_values_def Let_def map_cols_def split: option.splits if_splits
      intro!: exI [of _ "sort_key _ [0..<nrows df]"])

lemma wf_sort_values: "wf_frame df \<Longrightarrow> sort_values df c = Inr sdf \<Longrightarrow> wf_frame sdf"
  by (auto dest!: sort_values_map_cols intro!: wf_map_cols)

lemma sort_values_returns:
  "get_col df c = Some ks \<Longrightarrow> sortable ks \<Longrightarrow> \<exists>sdf. sort_values df c = Inr sdf"
  by (simp add: sort_values_def Let_def)

lemma sort_values_get_col:
  "sort_values df c = Inr sdf \<Longrightarrow> get_col df c' = Some xs \<Longrightarrow> \<exists>ys. get_col sdf c' = Some ys"
  by (auto dest!: sort_values_map_cols)

lemma sort_values_perm:
  "sort_values df c = Inr sdf \<Longrightarrow>
   \<exists>perm. mset perm = mset [0..<nrows df] \<and> sdf = map_cols (\<lambda>xs. map ((!) xs) perm) df"
  by (auto simp: sort_values_def Let_def map_cols_def split: option.splits if_splits
      intro!: exI [of _ "sort_key _ [0..<nrows df]"])

lemma mset_map_nth_perm:
  assumes "mset perm = mset [0..<length xs]"
  shows "mset (map ((!) xs) perm) = mset xs"
proof -
  have "mset (map ((!) xs) perm) = image_mset ((!) xs) (mset perm)" by simp
  also have "\<dots> = image_mset ((!) xs) (mset [0..<length xs])" using assms by simp
  also have "\<dots> = mset (map ((!) xs) [0..<length xs])" by simp
  also have "\<dots> = mset xs" by (simp add: map_nth)
  finally show ?thesis .
qed

lemma sort_values_col:
  assumes "sort_values df c = Inr sdf" and "wf_frame df" and "get_col df c' = Some xs"
  shows "\<exists>ys. get_col sdf c' = Some ys \<and> mset ys = mset xs"
proof -
  from sort_values_perm [OF assms(1)] obtain perm where
    p: "mset perm = mset [0..<nrows df]" and s: "sdf = map_cols (\<lambda>xs. map ((!) xs) perm) df"
    by blast
  from wf_frame_col_length [OF assms(2,3)] p have "mset perm = mset [0..<length xs]" by simp
  from mset_map_nth_perm [OF this] s assms(3) show ?thesis by simp
qed

lemma datetimelike_sortable: "datetimelike ts \<Longrightarrow> sortable ts"
  by (simp add: sortable_def)

lemma length_ffill_from [simp]: "length (ffill_from p xs) = length xs"
  by (induction xs arbitrary: p) simp_all

lemma length_ffill [simp]: "length (ffill xs) = length xs"
  by (simp add: ffill_def)

lemma length_bfill [simp]: "length (bfill xs) = length xs"
  by (simp add: bfill_def)

lemma length_fillna0 [simp]: "length (fillna0 xs) = length xs"
  by (simp add: fillna0_def)

lemma fillna0_no_NA [simp]: "NA \<notin> set (fillna0 xs)"
  by (auto simp: fillna0_def)

lemma nrows_fill_missing [simp]: "nrows (fill_missing df) = nrows df"
  by (simp add: fill_missing_def)

lemma wf_fill_missing: "wf_frame df \<Longrightarrow> wf_frame (fill_missing df)"
  by (simp add: fill_missing_def wf_map_cols)

lemma no_missing_fill_missing: "no_missing (fill_missing df)"
  by (auto simp: no_missing_def fill_missing_def map_cols_def)

lemma get_col_fill_missing:
  "get_col (fill_missing df) c = map_option (\<lambda>xs. fillna0 (bfill (ffill xs))) (get_col df c)"
  by (simp add: fill_missing_def option.map_comp comp_def)

lemma length_try_transform [simp]: "length (try_transform encs n df raw) = nrows df"
  by (simp add: try_transform_def split: option.splits)

lemma length_dt_field [simp]: "length (dt_field g ts) = length ts"
  by (simp add: dt_field_def)

lemma length_group_mean [simp]: "length (group_mean ks vs) = length ks"
  by (simp add: group_mean_def)

lemma length_shift [simp]: "length (shift k xs) = length xs"
  by (simp add: shift_def)

lemma length_rolling [simp]: "length (rolling w agg xs) = length xs"
  by (simp add: rolling_def)


subsection \<open>Feature preparation keeps the rows and leaves no missing cell\<close>

lemma encode_categoricals_nrows [simp]:
  "nrows (encode_categoricals df cid encs) = nrows df"
  by (simp add: encode_categoricals_def Let_def)

lemma encode_categoricals_wf: "wf_frame df \<Longrightarrow> wf_frame (encode_categoricals df cid encs)"
  by (simp add: encode_categoricals_def Let_def)

lemma time_features_ok:
  "wf_frame df \<Longrightarrow> time_features df = Inr df' \<Longrightarrow> wf_frame df' \<and> nrows df' = nrows df"
  by (auto simp: time_features_def Let_def wf_frame_col_length split: option.splits if_splits)

lemma stat_features_ok:
  "wf_frame df \<Longrightarrow> get_col df ''kWh'' = Some kwh \<Longrightarrow> stat_features df kwh = Inr df'
   \<Longrightarrow> wf_frame df' \<and> nrows df' = nrows df"
  by (auto simp: stat_features_def Let_def wf_frame_col_length split: option.splits if_splits)

lemma lag_features_ok:
  "wf_frame df \<Longrightarrow> lag_features df = Inr df' \<Longrightarrow> wf_frame df' \<and> nrows df' = nrows df"
  by (auto simp: lag_features_def Let_def wf_frame_col_length sort_values_nrows
      split: option.splits if_splits sum.splits dest: wf_sort_values)

lemma kwh_features_ok:
  assumes "wf_frame df" and "kwh_features df = Inr df'"
  shows "wf_frame df' \<and> nrows df' = nrows df"
proof (cases "get_col df ''kWh''")
  case None
  with assms show ?thesis by (simp add: kwh_features_def)
next
  case (Some kwh)
  with assms(2) obtain df1 where st: "stat_features df kwh = Inr df1"
    and lg: "lag_features df1 = Inr df'"
    by (auto simp: kwh_features_def split: sum.splits)
  from stat_features_ok [OF assms(1) Some st] have "wf_frame df1" "nrows df1 = nrows df"
    by simp_all
  with lag_features_ok [OF _ lg] show ?thesis by simp
qed

lemma derive_features_ok:
  assumes "wf_frame data_df" and "derive_features data_df cid encs = Inr df"
  shows "wf_frame df \<and> nrows df = nrows data_df"
proof -
  from assms(2) obtain df1 where
    t: "time_features (encode_categoricals data_df cid encs) = Inr df1" and
    k: "kwh_features df1 = Inr df"
    by (auto simp: derive_features_def split: sum.splits)
  from time_features_ok [OF encode_categoricals_wf [OF assms(1)] t]
  have "wf_frame df1" and "nrows df1 = nrows data_df" by simp_all
  with kwh_features_ok [OF _ k] show ?thesis by simp
qed

lemma get_col_encode_categoricals:
  "c \<notin> {''customer_id'', ''customer_encoded'', ''manufacturer_encoded'', ''region_encoded''}
   \<Longrightarrow> get_col (encode_categoricals df cid encs) c = get_col df c"
  by (simp add: encode_categoricals_def Let_def)

lemma time_features_returns:
  "get_col df ''timestamp'' = Some ts \<Longrightarrow> datetimelike ts \<Longrightarrow> \<exists>df'. time_features df = Inr df'"
  by (simp add: time_features_def Let_def)

lemma get_col_time_features:
  "time_features df = Inr df' \<Longrightarrow> c \<notin> {''hour'', ''day_of_week'', ''month'', ''is_weekend''}
   \<Longrightarrow> get_col df' c = get_col df c"
  by (auto simp: time_features_def Let_def split: option.splits if_splits)

lemma time_features_hour:
  "time_features df = Inr df' \<Longrightarrow> \<exists>hs. get_col df' ''hour'' = Some hs"
  by (auto simp: time_features_def Let_def split: option.splits if_splits)

lemma get_col_stat_features:
  "stat_features df kwh = Inr df' \<Longrightarrow> c \<in> {''timestamp'', ''kWh''}
   \<Longrightarrow> get_col df' c = get_col df c"
  by (auto simp: stat_features_def Let_def split: option.splits if_splits)

lemma stat_features_returns:
  "numeric kwh \<Longrightarrow> get_col df ''hour'' = Some hs \<Longrightarrow> \<exists>df'. stat_features df kwh = Inr df'"
  by (simp add: stat_features_def Let_def)

lemma lag_features_returns:
  assumes "get_col df ''timestamp'' = Some ts" and "datetimelike ts"
    and "get_col df ''kWh'' = Some kwh"
  shows "\<exists>df'. lag_features df = Inr df'"
proof -
  from sort_values_returns [OF assms(1) datetimelike_sortable [OF assms(2)]]
  obtain sdf where s: "sort_values df ''timestamp'' = Inr sdf" by blast
  from sort_values_get_col [OF s assms(3)] obtain ys where "get_col sdf ''kWh'' = Some ys"
    by blast
  with s show ?thesis by (simp add: lag_features_def Let_def)
qed

lemma derive_features_returns:
  assumes ts: "get_col data_df ''timestamp'' = Some ts" "datetimelike ts"
    and kwh: "\<forall>kwh. get_col data_df ''kWh'' = Some kwh \<longrightarrow> numeric kwh"
  shows "\<exists>df. derive_features data_df cid encs = Inr df"
proof -
  let ?e = "encode_categoricals data_df cid encs"
  have e_ts: "get_col ?e ''timestamp'' = Some ts"
    using ts(1) by (simp add: get_col_encode_categoricals)
  have e_kwh: "get_col ?e ''kWh'' = get_col data_df ''kWh''"
    by (simp add: get_col_encode_categoricals)
  from time_features_returns [OF e_ts ts(2)] obtain df1 where t: "time_features ?e = Inr df1"
    by blast
  have t_ts: "get_col df1 ''timestamp'' = Some ts"
    using get_col_time_features [OF t, of "''timestamp''"] e_ts by simp
  have t_kwh: "get_col df1 ''kWh'' = get_col data_df ''kWh''"
    using get_col_time_features [OF t, of "''kWh''"] e_kwh by simp
  show ?thesis
  proof (cases "get_col data_df ''kWh''")
    case None
    with t t_kwh show ?thesis by (simp add: derive_features_def kwh_features_def)
  next
    case (Some k)
    with kwh have nk: "numeric k" by simp
    from time_features_hour [OF t] obtain hs where "get_col df1 ''hour'' = Some hs" by blast
    from stat_features_returns [OF nk this] obtain df2 where st: "stat_features df1 k = Inr df2"
      by blast
    have "get_col df2 ''timestamp'' = Some ts" "get_col df2 ''kWh'' = Some k"
      using get_col_stat_features [OF st] t_ts t_kwh Some by simp_all
    from lag_features_returns [OF this(1) ts(2) this(2)] obtain df3 where
      "lag_features df2 = Inr df3" by blast
    with t st t_kwh Some show ?thesis by (simp add: derive_features_def kwh_features_def)
  qed
qed

text \<open>
  C3. For a well-formed input frame, the frame \<^verbatim>\<open>prepare_features_for_inference\<close>
  returns has the row count of the input, every column of it has that many cells,
  and after the final forward-fill, backward-fill and zero-fill no cell of any column
  is missing. The function does return whenever the frame has a timestamp column of
  timestamps and its \<^verbatim>\<open>kWh\<close> column, if present, is numeric.
\<close>

theorem prepare_features_invariant:
  assumes "wf_frame data_df"
  shows "(\<forall>out. prepare_features_for_inference data_df cid encs = Inr out \<longrightarrow>
            nrows out = nrows data_df \<and> wf_frame out \<and> no_missing out)
    \<and> ((\<exists>ts. get_col data_df ''timestamp'' = Some ts \<and> datetimelike ts)
        \<and> (\<forall>kwh. get_col data_df ''kWh'' = Some kwh \<longrightarrow> numeric kwh)
        \<longrightarrow> (\<exists>out. prepare_features_for_inference data_df cid encs = Inr out))"
proof (intro conjI allI impI)
  fix out assume "prepare_features_for_inference data_df cid encs = Inr out"
  then obtain df where d: "derive_features data_df cid encs = Inr df"
    and o: "out = fill_missing df"
    by (auto simp: prepare_features_for_inference_def split: sum.splits)
  from derive_features_ok [OF assms d] o
  show "nrows out = nrows data_df" "wf_frame out" "no_missing out"
    by (simp_all add: wf_fill_missing no_missing_fill_missing)
next
  assume "(\<exists>ts. get_col data_df ''timestamp'' = Some ts \<and> datetimelike ts)
        \<and> (\<forall>kwh. get_col data_df ''kWh'' = Some kwh \<longrightarrow> numeric kwh)"
  then obtain ts where "get_col data_df ''timestamp'' = Some ts" "datetimelike ts"
    and "\<forall>kwh. get_col data_df ''kWh'' = Some kwh \<longrightarrow> numeric kwh" by blast
  from derive_features_returns [OF this, of cid encs]
  show "\<exists>out. prepare_features_for_inference data_df cid encs = Inr out"
    by (auto simp: prepare_features_for_inference_def)
qed

text \<open>C3 on a frame with a missing timestamp and a missing reading.\<close>

theorem prepare_features_invariant_witness:
  "wf_frame frame_gap
   \<and> (\<exists>out. prepare_features_for_inference frame_gap ''c1'' Map.empty = Inr out
         \<and> nrows out = 3 \<and> wf_frame out \<and> no_missing out)"
proof -
  have wf: "wf_frame frame_gap" by (simp add: wf_frame_def frame_gap_def)
  have ts: "\<exists>ts. get_col frame_gap ''timestamp'' = Some ts \<and> datetimelike ts"
    by (simp add: get_col_def frame_gap_def datetimelike_def)
  have kwh: "\<forall>kwh. get_col frame_gap ''kWh'' = Some kwh \<longrightarrow> numeric kwh"
    by (simp add: get_col_def frame_gap_def numeric_def)
  have n: "nrows frame_gap = 3" by (simp add: frame_gap_def)
  from prepare_features_invariant [OF wf, of "''c1''" Map.empty] ts kwh n wf
  show ?thesis by metis
qed


subsection \<open>Sequence windows\<close>



text \<open>Without a \<^verbatim>\<open>timestamp\<close> column the first line raises, before the length test.\<close>

lemma create_sequences_no_timestamp:
  "get_col data_df ''timestamp'' = None \<Longrightarrow>
   create_sequences_for_inference data_df cs L = Inl (KeyError ''timestamp'')"
  by (simp add: create_sequences_for_inference_def sort_values_def)









subsection \<open>The 24-step lag column\<close>

text \<open>The final fill changes no cell that is present.\<close>

lemma nth_ffill_from:
  "i < length xs \<Longrightarrow> xs ! i \<noteq> NA \<Longrightarrow> ffill_from p xs ! i = xs ! i"
proof (induction xs arbitrary: p i)
  case Nil
  then show ?case by simp
next
  case (Cons x xs)
  then show ?case by (cases i) auto
qed

lemma nth_ffill: "i < length xs \<Longrightarrow> xs ! i \<noteq> NA \<Longrightarrow> ffill xs ! i = xs ! i"
  by (simp add: ffill_def nth_ffill_from)

lemma nth_bfill: "i < length xs \<Longrightarrow> xs ! i \<noteq> NA \<Longrightarrow> bfill xs ! i = xs ! i"
  by (simp add: bfill_def rev_nth nth_ffill)

lemma nth_fillna0: "i < length xs \<Longrightarrow> xs ! i \<noteq> NA \<Longrightarrow> fillna0 xs ! i = xs ! i"
  by (simp add: fillna0_def)

lemma nth_fill_present:
  "i < length xs \<Longrightarrow> xs ! i \<noteq> NA \<Longrightarrow> fillna0 (bfill (ffill xs)) ! i = xs ! i"
  by (simp add: nth_fillna0 nth_bfill nth_ffill)

lemma fill_no_NA: "NA \<notin> set xs \<Longrightarrow> fillna0 (bfill (ffill xs)) = xs"
proof (rule nth_equalityI)
  show "length (fillna0 (bfill (ffill xs))) = length xs" by simp
next
  fix i assume "NA \<notin> set xs" "i < length (fillna0 (bfill (ffill xs)))"
  then have "i < length xs" "xs ! i \<noteq> NA" by (auto dest: nth_mem)
  then show "fillna0 (bfill (ffill xs)) ! i = xs ! i" by (rule nth_fill_present)
qed










subsection \<open>Categorical encoding\<close>

lemma try_transform_cong:
  "nrows df = nrows df' \<Longrightarrow> get_col df raw = get_col df' raw
   \<Longrightarrow> try_transform encs n df raw = try_transform encs n df' raw"
  by (auto simp: try_transform_def broadcast_def split: option.splits)

lemma try_transform_fails:
  "encs n = None \<or> get_col df raw = None
     \<or> (\<exists>enc xs. encs n = Some enc \<and> get_col df raw = Some xs \<and> enc xs = None)
   \<Longrightarrow> try_transform encs n df raw = replicate (nrows df) (Num 0)"
  by (auto simp: try_transform_def broadcast_def split: option.splits)

lemma try_transform_succeeds:
  "encs n = Some enc \<Longrightarrow> get_col df raw = Some xs \<Longrightarrow> enc xs = Some ys
   \<Longrightarrow> length ys = nrows df \<Longrightarrow> try_transform encs n df raw = ys"
  by (simp add: try_transform_def)

lemma encode_categoricals_manufacturer:
  "get_col (encode_categoricals df cid encs) ''manufacturer_encoded'' =
     Some (if has_col df ''manufacturer''
           then try_transform encs ''manufacturer_encoder'' df ''manufacturer''
           else replicate (nrows df) (Num 0))"
proof -
  define df1 where "df1 = (if \<not> has_col df ''customer_id''
          then set_col df ''customer_id'' (broadcast df (Str cid)) else df)"
  define df2 where "df2 = set_col df1 ''customer_encoded''
          (try_transform encs ''customer_encoder'' df1 ''customer_id'')"
  have n: "nrows df2 = nrows df" by (simp add: df2_def df1_def)
  have g: "get_col df2 ''manufacturer'' = get_col df ''manufacturer''"
    by (simp add: df2_def df1_def)
  have h: "has_col df2 ''manufacturer'' = has_col df ''manufacturer''"
    by (simp add: has_col_iff g)
  have t: "try_transform encs ''manufacturer_encoder'' df2 ''manufacturer''
      = try_transform encs ''manufacturer_encoder'' df ''manufacturer''"
    by (rule try_transform_cong [OF n g])
  have "get_col (encode_categoricals df cid encs) ''manufacturer_encoded'' =
     Some (if has_col df2 ''manufacturer''
           then try_transform encs ''manufacturer_encoder'' df2 ''manufacturer''
           else broadcast df2 (Num 0))"
    by (simp add: encode_categoricals_def Let_def df2_def df1_def)
  then show ?thesis by (simp add: h t broadcast_def n)
qed

lemma encode_categoricals_region:
  "get_col (encode_categoricals df cid encs) ''region_encoded'' =
     Some (if has_col df ''region''
           then try_transform encs ''region_encoder'' df ''region''
           else replicate (nrows df) (Num 0))"
proof -
  define df1 where "df1 = (if \<not> has_col df ''customer_id''
          then set_col df ''customer_id'' (broadcast df (Str cid)) else df)"
  define df2 where "df2 = set_col df1 ''customer_encoded''
          (try_transform encs ''customer_encoder'' df1 ''customer_id'')"
  define df3 where "df3 = set_col df2 ''manufacturer_encoded''
          (if has_col df2 ''manufacturer''
           then try_transform encs ''manufacturer_encoder'' df2 ''manufacturer''
           else broadcast df2 (Num 0))"
  have n: "nrows df3 = nrows df" by (simp add: df3_def df2_def df1_def)
  have g: "get_col df3 ''region'' = get_col df ''region''"
    by (simp add: df3_def df2_def df1_def)
  have h: "has_col df3 ''region'' = has_col df ''region''"
    by (simp add: has_col_iff g)
  have t: "try_transform encs ''region_encoder'' df3 ''region''
      = try_transform encs ''region_encoder'' df ''region''"
    by (rule try_transform_cong [OF n g])
  have "get_col (encode_categoricals df cid encs) ''region_encoded'' =
     Some (if has_col df3 ''region''
           then try_transform encs ''region_encoder'' df3 ''region''
           else broadcast df3 (Num 0))"
    by (simp add: encode_categoricals_def Let_def df3_def df2_def df1_def)
  then show ?thesis by (simp add: h t broadcast_def n)
qed

lemma encode_categoricals_customer:
  "get_col (encode_categoricals df cid encs) ''customer_encoded'' =
     Some (try_transform encs ''customer_encoder''
       (if has_col df ''customer_id'' then df
        else set_col df ''customer_id'' (replicate (nrows df) (Str cid))) ''customer_id'')"
  by (simp add: encode_categoricals_def Let_def has_col_iff broadcast_def)

lemma get_col_stat_features_other:
  "stat_features df kwh = Inr df' \<Longrightarrow>
   c \<notin> {''customer_kwh_mean'', ''customer_kwh_std'', ''customer_kwh_min'', ''customer_kwh_max'',
        ''mfg_kwh_mean'', ''mfg_kwh_std'', ''mfg_kwh_min'', ''mfg_kwh_max'',
        ''regional_hourly_kwh_mean'', ''kwh_vs_customer_mean'', ''kwh_vs_mfg_mean''}
   \<Longrightarrow> get_col df' c = get_col df c"
  by (auto simp: stat_features_def Let_def split: option.splits if_splits)

lemma lag_features_other:
  assumes "lag_features df0 = Inr df" and "wf_frame df0"
    and "c \<notin> {''kwh_lag_1h'', ''kwh_lag_24h'', ''kwh_rolling_mean_6h'', ''kwh_rolling_std_6h''}"
    and "get_col df0 c = Some xs"
  shows "\<exists>ys. get_col df c = Some ys \<and> mset ys = mset xs"
proof -
  from assms(1) obtain sdf where s: "sort_values df0 ''timestamp'' = Inr sdf"
    and g: "get_col df c = get_col sdf c"
    using assms(3)
    by (auto simp: lag_features_def Let_def split: sum.splits option.splits if_splits)
  from sort_values_col [OF s assms(2,4)] g show ?thesis by simp
qed

lemma derive_features_keeps_encoded:
  assumes wf: "wf_frame data_df" and d: "derive_features data_df cid encs = Inr df"
    and c: "c \<in> {''customer_encoded'', ''manufacturer_encoded'', ''region_encoded''}"
    and x: "get_col (encode_categoricals data_df cid encs) c = Some xs"
  shows "\<exists>ys. get_col df c = Some ys \<and> mset ys = mset xs"
proof -
  let ?e = "encode_categoricals data_df cid encs"
  from d obtain df1 where t: "time_features ?e = Inr df1" and kf: "kwh_features df1 = Inr df"
    by (auto simp: derive_features_def split: sum.splits)
  from time_features_ok [OF encode_categoricals_wf [OF wf] t] have w1: "wf_frame df1" by simp
  have x1: "get_col df1 c = Some xs"
    using get_col_time_features [OF t, of c] c x by auto
  show ?thesis
  proof (cases "get_col df1 ''kWh''")
    case None
    with kf x1 show ?thesis by (simp add: kwh_features_def)
  next
    case (Some kwh)
    with kf obtain df2 where st: "stat_features df1 kwh = Inr df2"
      and lg: "lag_features df2 = Inr df"
      by (auto simp: kwh_features_def split: sum.splits)
    from stat_features_ok [OF w1 Some st] have w2: "wf_frame df2" by simp
    have x2: "get_col df2 c = Some xs"
      using get_col_stat_features_other [OF st, of c] c x1 by auto
    from c have "c \<notin> {''kwh_lag_1h'', ''kwh_lag_24h'', ''kwh_rolling_mean_6h'',
        ''kwh_rolling_std_6h''}" by auto
    from lag_features_other [OF lg w2 this x2] show ?thesis .
  qed
qed

lemma mset_replicate_eq:
  assumes "mset ys = mset (replicate n v)"
  shows "ys = replicate n v"
proof -
  have "y = v" if "y \<in> set ys" for y
  proof -
    from that have "y \<in># mset ys" by simp
    with assms have "y \<in># mset (replicate n v)" by simp
    then show ?thesis by (simp split: if_splits)
  qed
  then have "\<forall>y \<in> set ys. y = v" by blast
  moreover from assms have "length ys = n" by (metis size_mset length_replicate)
  ultimately show ?thesis using replicate_length_same [of ys v] by simp
qed

lemma prepare_encoded_zero:
  assumes wf: "wf_frame data_df"
    and p: "prepare_features_for_inference data_df cid encs = Inr out"
    and c: "c \<in> {''customer_encoded'', ''manufacturer_encoded'', ''region_encoded''}"
    and x: "get_col (encode_categoricals data_df cid encs) c
              = Some (replicate (nrows data_df) (Num 0))"
  shows "get_col out c = Some (replicate (nrows data_df) (Num 0))"
proof -
  from p obtain df where d: "derive_features data_df cid encs = Inr df"
    and o: "out = fill_missing df"
    by (auto simp: prepare_features_for_inference_def split: sum.splits)
  from derive_features_keeps_encoded [OF wf d c x] obtain ys where
    "get_col df c = Some ys" "mset ys = mset (replicate (nrows data_df) (Num 0))" by blast
  with mset_replicate_eq [of ys] have "get_col df c = Some (replicate (nrows data_df) (Num 0))"
    by simp
  with o show ?thesis by (simp add: get_col_fill_missing fill_no_NA)
qed

lemma prepare_encoded_perm:
  assumes wf: "wf_frame data_df"
    and p: "prepare_features_for_inference data_df cid encs = Inr out"
    and c: "c \<in> {''customer_encoded'', ''manufacturer_encoded'', ''region_encoded''}"
    and x: "get_col (encode_categoricals data_df cid encs) c = Some xs" and n: "NA \<notin> set xs"
  shows "\<exists>ys. get_col out c = Some ys \<and> mset ys = mset xs"
proof -
  from p obtain df where d: "derive_features data_df cid encs = Inr df"
    and o: "out = fill_missing df"
    by (auto simp: prepare_features_for_inference_def split: sum.splits)
  from derive_features_keeps_encoded [OF wf d c x] obtain ys where
    y: "get_col df c = Some ys" "mset ys = mset xs" by blast
  from y(2) n have "NA \<notin> set ys" by (auto dest: mset_eq_setD)
  with o y show ?thesis by (simp add: get_col_fill_missing fill_no_NA)
qed

text \<open>The frame without a \<^verbatim>\<open>customer_id\<close> column, for the customer \<^verbatim>\<open>beta\<close>.\<close>

lemma encode_categoricals_example: "encode_categoricals frame_no_customer ''beta'' encoders_ab =
   \<lparr>nrows = 2, cols = [(''timestamp'', [TS 0, TS 3600]),
       (''customer_id'', [Str ''beta'', Str ''beta'']),
       (''customer_encoded'', [Num 1, Num 1]),
       (''manufacturer_encoded'', [Num 0, Num 0]),
       (''region_encoded'', [Num 0, Num 0])]\<rparr>"
  by (simp add: encode_categoricals_def frame_no_customer_def encoders_ab_def has_col_def
      set_col_def broadcast_def try_transform_def get_col_def label_encoder_def Let_def
      numeral_2_eq_2)

lemma prepare_features_example:
  "\<exists>out. prepare_features_for_inference frame_no_customer ''beta'' encoders_ab = Inr out
      \<and> get_col out ''customer_encoded'' = Some [Num 1, Num 1]"
  by (simp add: prepare_features_for_inference_def derive_features_def encode_categoricals_example
      time_features_def kwh_features_def get_col_def datetimelike_def set_col_def Let_def
      fill_missing_def map_cols_def dt_field_def ffill_def bfill_def fillna0_def)

text \<open>
  C7, as stated, fails for the customer column: when the input has no
  \<^verbatim>\<open>customer_id\<close> column the pipeline attaches the request's customer id and encodes
  it, so the encoded column is the encoder's value (here 1), not the default 0.
\<close>

theorem encoding_counterexample:
  "\<not> has_col frame_no_customer ''customer_id''
   \<and> (\<exists>out. prepare_features_for_inference frame_no_customer ''beta'' encoders_ab = Inr out
         \<and> get_col out ''customer_encoded'' = Some [Num 1, Num 1])"
proof -
  have "\<not> has_col frame_no_customer ''customer_id''"
    by (simp add: has_col_def frame_no_customer_def)
  with prepare_features_example show ?thesis by blast
qed

text \<open>
  C7, amended. Whatever the encoders are, the pipeline returns once the timestamps
  and the metric are in order, and in the frame it returns: \<^verbatim>\<open>manufacturer_encoded\<close>
  (\<^verbatim>\<open>region_encoded\<close>) is 0 in every row when the raw column is absent, the encoder is
  missing, or its transform raises; \<^verbatim>\<open>customer_encoded\<close> is 0 in every row when the
  customer encoder is missing or its transform raises on the \<^verbatim>\<open>customer_id\<close> column
  (the input's, or the attached request customer id when the input has none); and
  when the input has no \<^verbatim>\<open>customer_id\<close> column and the encoder accepts the attached
  id, \<^verbatim>\<open>customer_encoded\<close> holds the encoder's values.
\<close>

theorem encoding_fallback:
  assumes wf: "wf_frame data_df"
  shows
   "((\<exists>ts. get_col data_df ''timestamp'' = Some ts \<and> datetimelike ts)
        \<and> (\<forall>kwh. get_col data_df ''kWh'' = Some kwh \<longrightarrow> numeric kwh)
      \<longrightarrow> (\<exists>out. prepare_features_for_inference data_df cid encs = Inr out))
    \<and> (\<forall>out. prepare_features_for_inference data_df cid encs = Inr out \<longrightarrow>
         ((get_col data_df ''manufacturer'' = None \<or> encs ''manufacturer_encoder'' = None
             \<or> (\<exists>enc xs. encs ''manufacturer_encoder'' = Some enc
                   \<and> get_col data_df ''manufacturer'' = Some xs \<and> enc xs = None))
           \<longrightarrow> get_col out ''manufacturer_encoded'' = Some (replicate (nrows data_df) (Num 0)))
       \<and> ((get_col data_df ''region'' = None \<or> encs ''region_encoder'' = None
             \<or> (\<exists>enc xs. encs ''region_encoder'' = Some enc
                   \<and> get_col data_df ''region'' = Some xs \<and> enc xs = None))
           \<longrightarrow> get_col out ''region_encoded'' = Some (replicate (nrows data_df) (Num 0)))
       \<and> ((encs ''customer_encoder'' = None
             \<or> (\<exists>enc. encs ''customer_encoder'' = Some enc
                   \<and> enc (case get_col data_df ''customer_id'' of
                             None \<Rightarrow> replicate (nrows data_df) (Str cid)
                           | Some xs \<Rightarrow> xs) = None))
           \<longrightarrow> get_col out ''customer_encoded'' = Some (replicate (nrows data_df) (Num 0)))
       \<and> (\<forall>enc ys. get_col data_df ''customer_id'' = None
              \<and> encs ''customer_encoder'' = Some enc
              \<and> enc (replicate (nrows data_df) (Str cid)) = Some ys
              \<and> length ys = nrows data_df \<and> NA \<notin> set ys
           \<longrightarrow> (\<exists>zs. get_col out ''customer_encoded'' = Some zs \<and> mset zs = mset ys)))"
proof (intro conjI allI impI)
  assume "(\<exists>ts. get_col data_df ''timestamp'' = Some ts \<and> datetimelike ts)
        \<and> (\<forall>kwh. get_col data_df ''kWh'' = Some kwh \<longrightarrow> numeric kwh)"
  then obtain ts where "get_col data_df ''timestamp'' = Some ts" "datetimelike ts"
    and "\<forall>kwh. get_col data_df ''kWh'' = Some kwh \<longrightarrow> numeric kwh" by blast
  from derive_features_returns [OF this, of cid encs]
  show "\<exists>out. prepare_features_for_inference data_df cid encs = Inr out"
    by (auto simp: prepare_features_for_inference_def)
next
  fix out assume p: "prepare_features_for_inference data_df cid encs = Inr out"
  assume "get_col data_df ''manufacturer'' = None \<or> encs ''manufacturer_encoder'' = None
             \<or> (\<exists>enc xs. encs ''manufacturer_encoder'' = Some enc
                   \<and> get_col data_df ''manufacturer'' = Some xs \<and> enc xs = None)"
  then have "try_transform encs ''manufacturer_encoder'' data_df ''manufacturer''
      = replicate (nrows data_df) (Num 0)"
    by (intro try_transform_fails) blast
  then have "get_col (encode_categoricals data_df cid encs) ''manufacturer_encoded''
      = Some (replicate (nrows data_df) (Num 0))"
    by (simp add: encode_categoricals_manufacturer)
  from prepare_encoded_zero [OF wf p _ this]
  show "get_col out ''manufacturer_encoded'' = Some (replicate (nrows data_df) (Num 0))"
    by simp
next
  fix out assume p: "prepare_features_for_inference data_df cid encs = Inr out"
  assume "get_col data_df ''region'' = None \<or> encs ''region_encoder'' = None
             \<or> (\<exists>enc xs. encs ''region_encoder'' = Some enc
                   \<and> get_col data_df ''region'' = Some xs \<and> enc xs = None)"
  then have "try_transform encs ''region_encoder'' data_df ''region''
      = replicate (nrows data_df) (Num 0)"
    by (intro try_transform_fails) blast
  then have "get_col (encode_categoricals data_df cid encs) ''region_encoded''
      = Some (replicate (nrows data_df) (Num 0))"
    by (simp add: encode_categoricals_region)
  from prepare_encoded_zero [OF wf p _ this]
  show "get_col out ''region_encoded'' = Some (replicate (nrows data_df) (Num 0))"
    by simp
next
  fix out assume p: "prepare_features_for_inference data_df cid encs = Inr out"
  let ?df1 = "if has_col data_df ''customer_id'' then data_df
        else set_col data_df ''customer_id'' (replicate (nrows data_df) (Str cid))"
  have g: "get_col ?df1 ''customer_id'' =
      Some (case get_col data_df ''customer_id'' of
              None \<Rightarrow> replicate (nrows data_df) (Str cid) | Some xs \<Rightarrow> xs)"
    by (auto simp: has_col_iff)
  have n: "nrows ?df1 = nrows data_df" by simp
  assume "encs ''customer_encoder'' = None
             \<or> (\<exists>enc. encs ''customer_encoder'' = Some enc
                   \<and> enc (case get_col data_df ''customer_id'' of
                             None \<Rightarrow> replicate (nrows data_df) (Str cid)
                           | Some xs \<Rightarrow> xs) = None)"
  with g have "try_transform encs ''customer_encoder'' ?df1 ''customer_id''
      = replicate (nrows ?df1) (Num 0)"
    by (intro try_transform_fails) blast
  with n have "get_col (encode_categoricals data_df cid encs) ''customer_encoded''
      = Some (replicate (nrows data_df) (Num 0))"
    by (simp only: encode_categoricals_customer)
  from prepare_encoded_zero [OF wf p _ this]
  show "get_col out ''customer_encoded'' = Some (replicate (nrows data_df) (Num 0))"
    by simp
next
  fix out enc ys assume p: "prepare_features_for_inference data_df cid encs = Inr out"
  assume a: "get_col data_df ''customer_id'' = None
              \<and> encs ''customer_encoder'' = Some enc
              \<and> enc (replicate (nrows data_df) (Str cid)) = Some ys
              \<and> length ys = nrows data_df \<and> NA \<notin> set ys"
  let ?df1 = "if has_col data_df ''customer_id'' then data_df
        else set_col data_df ''customer_id'' (replicate (nrows data_df) (Str cid))"
  from a have g: "get_col ?df1 ''customer_id'' = Some (replicate (nrows data_df) (Str cid))"
    by (auto simp: has_col_iff)
  have n: "nrows ?df1 = nrows data_df" by simp
  from a have e: "encs ''customer_encoder'' = Some enc"
    and f: "enc (replicate (nrows data_df) (Str cid)) = Some ys" by blast+
  from a n have l: "length ys = nrows ?df1" by (simp only:)
  have "try_transform encs ''customer_encoder'' ?df1 ''customer_id'' = ys"
    by (rule try_transform_succeeds [of encs "''customer_encoder''" enc ?df1 "''customer_id''"
          "replicate (nrows data_df) (Str cid)" ys, OF e g f l])
  then have "get_col (encode_categoricals data_df cid encs) ''customer_encoded'' = Some ys"
    by (simp only: encode_categoricals_customer)
  from prepare_encoded_perm [OF wf p _ this] a
  show "\<exists>zs. get_col out ''customer_encoded'' = Some zs \<and> mset zs = mset ys"
    by simp
qed

text \<open>
  C7 (amended) on an unseen manufacturer, no region column and no customer encoder:
  all three columns default to 0.
\<close>

theorem encoding_fallback_witness:
  "wf_frame frame_mfg
   \<and> (\<exists>out. prepare_features_for_inference frame_mfg ''c1'' encoders_acme = Inr out
        \<and> get_col out ''manufacturer_encoded'' = Some [Num 0, Num 0]
        \<and> get_col out ''region_encoded'' = Some [Num 0, Num 0]
        \<and> get_col out ''customer_encoded'' = Some [Num 0, Num 0])"
proof -
  have wf: "wf_frame frame_mfg" by (simp add: wf_frame_def frame_mfg_def)
  note t = encoding_fallback [OF wf, of "''c1''" encoders_acme]
  have h: "(\<exists>ts. get_col frame_mfg ''timestamp'' = Some ts \<and> datetimelike ts)
        \<and> (\<forall>kwh. get_col frame_mfg ''kWh'' = Some kwh \<longrightarrow> numeric kwh)"
    by (simp add: get_col_def frame_mfg_def datetimelike_def)
  from t [THEN conjunct1, THEN mp, OF h] obtain out where
    p: "prepare_features_for_inference frame_mfg ''c1'' encoders_acme = Inr out" ..
  note u = t [THEN conjunct2, THEN spec, THEN mp, OF p]
  have n: "replicate (nrows frame_mfg) (Num 0) = [Num 0, Num 0]"
    by (simp add: frame_mfg_def numeral_2_eq_2)
  have m: "get_col frame_mfg ''manufacturer'' = None \<or> encoders_acme ''manufacturer_encoder'' = None
             \<or> (\<exists>enc xs. encoders_acme ''manufacturer_encoder'' = Some enc
                   \<and> get_col frame_mfg ''manufacturer'' = Some xs \<and> enc xs = None)"
    by (simp add: encoders_acme_def get_col_def frame_mfg_def label_encoder_def)
  have r: "get_col frame_mfg ''region'' = None \<or> encoders_acme ''region_encoder'' = None
             \<or> (\<exists>enc xs. encoders_acme ''region_encoder'' = Some enc
                   \<and> get_col frame_mfg ''region'' = Some xs \<and> enc xs = None)"
    by (simp add: get_col_def frame_mfg_def)
  have c: "encoders_acme ''customer_encoder'' = None
             \<or> (\<exists>enc. encoders_acme ''customer_encoder'' = Some enc
                   \<and> enc (case get_col frame_mfg ''customer_id'' of
                             None \<Rightarrow> replicate (nrows frame_mfg) (Str ''c1'')
                           | Some xs \<Rightarrow> xs) = None)"
    by (simp add: encoders_acme_def)
  note r1 = u [THEN conjunct1, THEN mp, OF m, unfolded n]
  note r2 = u [THEN conjunct2, THEN conjunct1, THEN mp, OF r, unfolded n]
  note r3 = u [THEN conjunct2, THEN conjunct2, THEN conjunct1, THEN mp, OF c, unfolded n]
  from wf p r1 r2 r3 show ?thesis by blast
qed


subsection \<open>The prepared frame sorts\<close>

text \<open>
  The frame \<^verbatim>\<open>prepare_features_for_inference\<close> returns has a \<^verbatim>\<open>timestamp\<close> column the
  windower can sort by: timestamps, or zeros when every timestamp was missing.
\<close>

lemma set_ffill_from: "set (ffill_from p xs) \<subseteq> insert p (set xs)"
  by (induction xs arbitrary: p) auto

lemma ffill_from_no_NA: "p \<noteq> NA \<Longrightarrow> NA \<notin> set (ffill_from p xs)"
  by (induction xs arbitrary: p) auto

lemma last_ffill_from:
  "\<exists>x \<in> set xs. x \<noteq> NA \<Longrightarrow> last (ffill_from p xs) \<noteq> NA"
proof (induction xs arbitrary: p)
  case Nil
  then show ?case by simp
next
  case (Cons x xs)
  show ?case
  proof (cases "\<exists>y \<in> set xs. y \<noteq> NA")
    case True
    then have "xs \<noteq> []" by auto
    then have "ffill_from q xs \<noteq> []" for q by (cases xs) auto
    with Cons.IH [OF True] show ?thesis by simp
  next
    case False
    with Cons.prems have x: "x \<noteq> NA" by auto
    show ?thesis
    proof (cases xs)
      case Nil
      with x show ?thesis by simp
    next
      case (Cons y ys)
      then have "ffill_from x xs \<noteq> []" by simp
      moreover from ffill_from_no_NA [OF x, of xs] this have "last (ffill_from x xs) \<noteq> NA"
        by (metis last_in_set)
      ultimately show ?thesis using x by simp
    qed
  qed
qed

lemma ffill_from_hd: "zs \<noteq> [] \<Longrightarrow> hd zs \<noteq> NA \<Longrightarrow> NA \<notin> set (ffill_from p zs)"
  by (cases zs) (auto simp: ffill_from_no_NA)

lemma bfill_ffill_no_NA:
  assumes "\<exists>x \<in> set xs. x \<noteq> NA"
  shows "NA \<notin> set (bfill (ffill xs))"
proof -
  from assms have ne: "ffill xs \<noteq> []" by (cases xs) (auto simp: ffill_def)
  from last_ffill_from [OF assms] have "last (ffill xs) \<noteq> NA" by (simp add: ffill_def)
  with ne have "hd (rev (ffill xs)) \<noteq> NA" by (simp add: hd_rev)
  with ne have "NA \<notin> set (ffill_from NA (rev (ffill xs)))" by (intro ffill_from_hd) simp_all
  then show ?thesis by (simp add: bfill_def ffill_def)
qed

lemma set_bfill_ffill: "set (bfill (ffill xs)) \<subseteq> insert NA (set xs)"
proof -
  have "set (bfill (ffill xs)) \<subseteq> insert NA (set (ffill xs))"
    using set_ffill_from [of NA "rev (ffill xs)"] by (simp add: bfill_def ffill_def)
  also have "\<dots> \<subseteq> insert NA (set xs)"
    using set_ffill_from [of NA xs] by (auto simp: ffill_def)
  finally show ?thesis .
qed

lemma fill_sortable:
  assumes "datetimelike xs"
  shows "sortable (fillna0 (bfill (ffill xs)))"
proof (cases "\<exists>x \<in> set xs. x \<noteq> NA")
  case True
  from bfill_ffill_no_NA [OF True] have n: "NA \<notin> set (bfill (ffill xs))" .
  then have "fillna0 (bfill (ffill xs)) = bfill (ffill xs)"
    unfolding fillna0_def by (intro map_idI) auto
  moreover have "datetimelike (bfill (ffill xs))"
    using assms set_bfill_ffill [of xs] by (auto simp: datetimelike_def)
  ultimately show ?thesis by (simp add: sortable_def)
next
  case False
  with set_bfill_ffill [of xs] have "set (bfill (ffill xs)) \<subseteq> {NA}" by auto
  then have "numeric (fillna0 (bfill (ffill xs)))"
    by (auto simp: numeric_def fillna0_def)
  then show ?thesis by (simp add: sortable_def)
qed

lemma derive_features_timestamp:
  assumes wf: "wf_frame data_df" and d: "derive_features data_df cid encs = Inr df"
  shows "\<exists>ts. get_col df ''timestamp'' = Some ts \<and> datetimelike ts"
proof -
  let ?e = "encode_categoricals data_df cid encs"
  from d obtain df1 where t: "time_features ?e = Inr df1" and kf: "kwh_features df1 = Inr df"
    by (auto simp: derive_features_def split: sum.splits)
  from t obtain ts where ts: "get_col ?e ''timestamp'' = Some ts" "datetimelike ts"
    by (auto simp: time_features_def split: option.splits if_splits)
  from time_features_ok [OF encode_categoricals_wf [OF wf] t] have w1: "wf_frame df1" by simp
  have x1: "get_col df1 ''timestamp'' = Some ts"
    using get_col_time_features [OF t, of "''timestamp''"] ts(1) by simp
  show ?thesis
  proof (cases "get_col df1 ''kWh''")
    case None
    with kf x1 ts(2) show ?thesis by (simp add: kwh_features_def)
  next
    case (Some kwh)
    with kf obtain df2 where st: "stat_features df1 kwh = Inr df2"
      and lg: "lag_features df2 = Inr df"
      by (auto simp: kwh_features_def split: sum.splits)
    from stat_features_ok [OF w1 Some st] have w2: "wf_frame df2" by simp
    have x2: "get_col df2 ''timestamp'' = Some ts"
      using get_col_stat_features [OF st, of "''timestamp''"] x1 by simp
    have "''timestamp'' \<notin> {''kwh_lag_1h'', ''kwh_lag_24h'', ''kwh_rolling_mean_6h'',
        ''kwh_rolling_std_6h''}" by simp
    from lag_features_other [OF lg w2 this x2] obtain ys where
      y: "get_col df ''timestamp'' = Some ys" "mset ys = mset ts" by blast
    from y(2) have "set ys = set ts" by (rule mset_eq_setD)
    with ts(2) y(1) show ?thesis by (simp add: datetimelike_def)
  qed
qed

lemma prepared_frame_sorts:
  assumes "wf_frame data_df" and "prepare_features_for_inference data_df cid encs = Inr out"
  shows "\<exists>df. sort_values out ''timestamp'' = Inr df"
proof -
  from assms(2) obtain d where d: "derive_features data_df cid encs = Inr d"
    and o: "out = fill_missing d"
    by (auto simp: prepare_features_for_inference_def split: sum.splits)
  from derive_features_timestamp [OF assms(1) d] obtain ts where
    "get_col d ''timestamp'' = Some ts" "datetimelike ts" by blast
  with o have "get_col out ''timestamp'' = Some (fillna0 (bfill (ffill ts)))"
    "sortable (fillna0 (bfill (ffill ts)))"
    by (simp_all add: get_col_fill_missing fill_sortable)
  then show ?thesis by (rule sort_values_returns)
qed


subsection \<open>Recent data: the fallback to the last records\<close>

lemma logged_fields [simp]:
  "clock (logged ev w) = clock w" "s3_client (logged ev w) = s3_client w"
  "redis_client (logged ev w) = redis_client w" "input_bucket (logged ev w) = input_bucket w"
  "model_cache (logged ev w) = model_cache w" "encoders_cache (logged ev w) = encoders_cache w"
  "config_cache (logged ev w) = config_cache w" "files (logged ev w) = files w"
  "redis_data (logged ev w) = redis_data w" "redis_up (logged ev w) = redis_up w"
  "s3_bucket (logged ev w) = s3_bucket w" "output_bucket (logged ev w) = output_bucket w"
  "trace (logged ev w) = trace w @ [ev]"
  by (simp_all add: logged_def)

lemma try_redis_data_clock:
  "try_redis_data libs k w = (r, w') \<Longrightarrow> clock w' = clock w \<and> s3_client w' = s3_client w"
  by (auto simp: try_redis_data_def redis_get_def split: if_splits outcome.splits option.splits)

lemma and_then_Inr:
  "and_then m f w = (Inr y, w') \<longleftrightarrow> (\<exists>x w1. m w = (Inr x, w1) \<and> f x w1 = (Inr y, w'))"
  by (auto simp: and_then_def split: prod.splits sum.splits)
lemma nrows_tail:
  "nrows (tail n df) = (if n \<ge> 0 then min (nat n) (nrows df) else nrows df - nat (- n))"
  by (simp add: tail_def Let_def)

text \<open>\<^verbatim>\<open>df.tail(n)\<close> keeps the last cells of every column.\<close>

lemma tail_eq:
  assumes "wf_frame df"
  shows "tail n df =
     (let k = (if n \<ge> 0 then min (nat n) (nrows df) else nrows df - nat (- n))
      in \<lparr>nrows = k, cols = map (\<lambda>(c, xs). (c, drop (nrows df - k) xs)) (cols df)\<rparr>)"
proof -
  have "length xs = nrows df" if "(c, xs) \<in> set (cols df)" for c xs
    using assms that by (force simp: wf_frame_def)
  then show ?thesis by (auto simp: tail_def Let_def)
qed

text \<open>The sorted frame is in the order of its key: ascending, missing keys last.\<close>

lemma sort_values_sorted:
  assumes "sort_values df c = Inr sdf" and "get_col df c = Some ks"
  shows "get_col sdf c = Some (map ((!) ks) (sort_key (\<lambda>i. sort_rank (ks ! i)) [0..<nrows df]))
     \<and> sorted (map sort_rank (map ((!) ks) (sort_key (\<lambda>i. sort_rank (ks ! i)) [0..<nrows df])))"
proof -
  let ?perm = "sort_key (\<lambda>i. sort_rank (ks ! i)) [0..<nrows df]"
  from assms have "sdf = map_cols (\<lambda>xs. map ((!) xs) ?perm) df"
    by (auto simp: sort_values_def Let_def map_cols_def split: if_splits)
  with assms(2) have "get_col sdf c = Some (map ((!) ks) ?perm)" by simp
  moreover have "sorted (map sort_rank (map ((!) ks) ?perm))"
    using sorted_sort_key [of "\<lambda>i. sort_rank (ks ! i)" "[0..<nrows df]"]
    by (simp add: comp_def)
  ultimately show ?thesis by blast
qed

lemma sorted_rank_time_order:
  assumes s: "sorted (map sort_rank ts)" and d: "datetimelike ts"
    and ij: "i \<le> j" "j < length ts"
  shows "(\<forall>a b. ts ! i = TS a \<and> ts ! j = TS b \<longrightarrow> a \<le> b) \<and> (ts ! i = NA \<longrightarrow> ts ! j = NA)"
proof -
  from s ij have le: "sort_rank (ts ! i) \<le> sort_rank (ts ! j)"
    using sorted_nth_mono [of "map sort_rank ts" i j] by simp
  from d ij have "is_NA (ts ! j) \<or> is_TS (ts ! j)" by (simp add: datetimelike_def)
  with le show ?thesis
    by (cases "ts ! i"; cases "ts ! j") (auto simp: sort_rank_def less_eq_prod_def)
qed

lemma at_or_after_none:
  assumes "\<forall>t. TS t \<in> set ts \<longrightarrow> t < cutoff"
  shows "filter id (at_or_after cutoff ts) = []"
  using assms
  by (induction ts) (auto simp: at_or_after_def split: cell.splits)

text \<open>The cutoff is computed exactly when the time span and the result are in range.\<close>

lemma cutoff_before_iff:
  "cutoff_before now hours = Inr c \<longleftrightarrow>
     - 999999999 \<le> hours div 24 \<and> hours div 24 \<le> 999999999
     \<and> datetime_min \<le> c \<and> c \<le> datetime_max \<and> c = now - 3600 * hours"
  by (auto simp: cutoff_before_def Let_def)

lemma select_recent_fallback:
  assumes "cutoff_before now hours = Inr cutoff"
    and "in_ns_range cutoff \<or> wide_compare libs"
    and "\<forall>t. TS t \<in> set ts \<longrightarrow> t < cutoff"
  shows "select_recent libs now hours Naive df ts = Inr (tail hours df)"
  using at_or_after_none [OF assms(3)] assms(1,2)
  by (auto simp: select_recent_def series_ge_def Let_def filter_rows_def)

text \<open>A timezone-aware column makes the comparison with the cutoff raise.\<close>

lemma select_recent_aware:
  assumes "cutoff_before now hours = Inr cutoff" and "in_ns_range cutoff"
  shows "select_recent libs now hours Aware df ts = Inl TypeError"
  using assms by (simp add: select_recent_def series_ge_def)

lemma load_series_result:
  assumes "load_series libs cid w = (Inr (z, df), w')"
  shows "wf_frame df \<and> clock w' = clock w
     \<and> (\<exists>ts. get_col df ''timestamp'' = Some ts \<and> datetimelike ts \<and> length ts = nrows df
            \<and> sorted (map sort_rank ts))"
proof -
  from assms have "\<exists>df0 raw ts. clock w' = clock w \<and> wf_frame df0
      \<and> get_col df0 ''timestamp'' = Some raw \<and> length ts = nrows df0 \<and> datetimelike ts
      \<and> sort_values (set_col df0 ''timestamp'' ts) ''timestamp'' = Inr df"
    unfolding load_series_def and_then_Inr
    by (auto simp: s3_list_objects_def s3_get_object_def lib_call_def
        split: if_splits option.splits prod.splits sum.splits)
  then obtain df0 raw ts where
    c: "clock w' = clock w" and wf0: "wf_frame df0"
    and r: "get_col df0 ''timestamp'' = Some raw"
    and l: "length ts = nrows df0" and d: "datetimelike ts"
    and s: "sort_values (set_col df0 ''timestamp'' ts) ''timestamp'' = Inr df"
    by blast
  let ?d = "set_col df0 ''timestamp'' ts"
  have wf1: "wf_frame ?d" using wf0 l by simp
  have g: "get_col ?d ''timestamp'' = Some ts" by simp
  from sort_values_col [OF s wf1 g] obtain ts' where
    t: "get_col df ''timestamp'' = Some ts'" "mset ts' = mset ts" by blast
  from t(2) have "set ts' = set ts" by (rule mset_eq_setD)
  with d have "datetimelike ts'" by (simp add: datetimelike_def)
  moreover have "wf_frame df" by (rule wf_sort_values [OF wf1 s])
  moreover from this t(1) have "length ts' = nrows df" by (rule wf_frame_col_length)
  moreover from sort_values_sorted [OF s g] t(1) have "sorted (map sort_rank ts')" by simp
  ultimately show ?thesis using c t(1) by simp
qed

text \<open>
  C10, amended. Redis gives no cached frame, the S3 client exists, and the customer's
  series loads with naive timestamps: \<open>df\<close>, of \<open>nrows df > 0\<close> records. The cutoff
  \<open>now - hours\<close> can be computed (the time span and the cutoff are in the range of
  \<^verbatim>\<open>timedelta\<close> and \<^verbatim>\<open>datetime\<close>) and compared with the column, and no record is at or
  after it. Then \<open>df\<close> is in time order (timestamps ascending, missing ones last),
  the function does not fail, and it returns the last \<open>k\<close> records of \<open>df\<close>, that is
  the last \<open>k\<close> cells of every column, where \<open>k = min hours (nrows df)\<close> for
  \<open>hours \<ge> 0\<close>. So for \<open>hours \<ge> 1\<close> the returned frame is not empty.
\<close>

theorem get_recent_customer_data_fallback:
  assumes miss: "try_redis_data libs
        (get_cache_key ''data'' cid (''recent_'' @ str_int hours @ ''h'')) w0 = (None, w1)"
    and s3: "s3_client w0"
    and series: "load_series libs cid w1 = (Inr (Naive, df), w2)"
    and span: "- 999999999 \<le> hours div 24 \<and> hours div 24 \<le> 999999999"
    and range: "datetime_min \<le> clock w0 - 3600 * hours \<and> clock w0 - 3600 * hours \<le> datetime_max"
    and cmp: "in_ns_range (clock w0 - 3600 * hours) \<or> wide_compare libs"
    and nonempty: "0 < nrows df"
    and old: "\<forall>ts t. get_col df ''timestamp'' = Some ts \<and> TS t \<in> set ts
                \<longrightarrow> t < clock w0 - 3600 * hours"
  shows "\<exists>ts. get_col df ''timestamp'' = Some ts \<and> length ts = nrows df
     \<and> (\<forall>i j a b. i \<le> j \<and> j < nrows df \<and> ts ! i = TS a \<and> ts ! j = TS b \<longrightarrow> a \<le> b)
     \<and> (\<forall>i j. i \<le> j \<and> j < nrows df \<and> ts ! i = NA \<longrightarrow> ts ! j = NA)
     \<and> (let k = (if 0 \<le> hours then min (nat hours) (nrows df) else nrows df - nat (- hours))
        in fst (get_recent_customer_data libs cid hours w0)
             = Inr \<lparr>nrows = k, cols = map (\<lambda>(c, xs). (c, drop (nrows df - k) xs)) (cols df)\<rparr>
           \<and> (1 \<le> hours \<longrightarrow> 0 < k))"
proof -
  from try_redis_data_clock [OF miss] have c1: "clock w1 = clock w0" "s3_client w1"
    using s3 by simp_all
  from load_series_result [OF series] obtain ts where
    wf: "wf_frame df" and c2: "clock w2 = clock w1"
    and g: "get_col df ''timestamp'' = Some ts" and d: "datetimelike ts"
    and l: "length ts = nrows df" and s: "sorted (map sort_rank ts)" by blast
  let ?cutoff = "clock w0 - 3600 * hours"
  have cb: "cutoff_before (clock w2) hours = Inr ?cutoff"
    using span range c1 c2 by (simp add: cutoff_before_iff)
  from old g have "\<forall>t. TS t \<in> set ts \<longrightarrow> t < ?cutoff" by simp
  from select_recent_fallback [OF cb cmp this]
  have "select_recent libs (clock w2) hours Naive df ts = Inr (tail hours df)" .
  with miss c1 series g
  have "fst (get_recent_customer_data libs cid hours w0) = Inr (tail hours df)"
    by (simp add: get_recent_customer_data_def and_then_def Let_def)
  then have r: "let k = (if 0 \<le> hours then min (nat hours) (nrows df)
                         else nrows df - nat (- hours))
      in fst (get_recent_customer_data libs cid hours w0)
           = Inr \<lparr>nrows = k, cols = map (\<lambda>(c, xs). (c, drop (nrows df - k) xs)) (cols df)\<rparr>
         \<and> (1 \<le> hours \<longrightarrow> 0 < k)"
    using nonempty by (simp add: tail_eq [OF wf] Let_def)
  have o1: "\<forall>i j a b. i \<le> j \<and> j < nrows df \<and> ts ! i = TS a \<and> ts ! j = TS b \<longrightarrow> a \<le> b"
    using sorted_rank_time_order [OF s d] l by metis
  have o2: "\<forall>i j. i \<le> j \<and> j < nrows df \<and> ts ! i = NA \<longrightarrow> ts ! j = NA"
    using sorted_rank_time_order [OF s d] l by metis
  from g l o1 o2 r show ?thesis by blast
qed

text \<open>The loader on the example store.\<close>

lemma find_customer_file_c1:
  "find_customer_file ''c1'' [''total/c1/total_load.csv''] = Some ''total/c1/total_load.csv''"
  by (simp add: find_customer_file_def sublist_code suffix_to_prefix)

lemma load_series_example:
  assumes "wf_frame df" and "get_col df ''timestamp'' = Some ts" and "datetimelike ts"
    and "sort_values df ''timestamp'' = Inr sdf"
  shows "\<exists>w2. load_series (libs_frame z df) ''c1'' (data_world now) = (Inr (z, sdf), w2)
     \<and> clock w2 = now \<and> \<not> redis_client w2"
proof -
  have "set_col df ''timestamp'' ts = df"
    using assms(2) by (simp add: set_col_def get_col_def AList.update_triv)
  with assms wf_frame_col_length [OF assms(1,2)] show ?thesis
    by (simp add: load_series_def and_then_def s3_list_objects_def data_world_def
        find_customer_file_c1 s3_get_object_def lib_call_def libs_frame_def)
qed

lemma sort_frame_five: "sort_values frame_five ''timestamp'' = Inr frame_five_sorted"
  by (simp add: sort_values_def frame_five_def frame_five_sorted_def get_col_def sortable_def
      datetimelike_def sort_rank_def upt_conv_Cons)

lemma sort_frame_old_future:
  "sort_values frame_old_future ''timestamp'' = Inr frame_old_future_sorted"
  by (simp add: sort_values_def frame_old_future_def frame_old_future_sorted_def get_col_def
      sortable_def datetimelike_def sort_rank_def upt_conv_Cons)

lemma get_recent_example:
  assumes "wf_frame df" and "get_col df ''timestamp'' = Some ts" and "datetimelike ts"
    and "sort_values df ''timestamp'' = Inr sdf" and "get_col sdf ''timestamp'' = Some ts'"
  shows "fst (get_recent_customer_data (libs_frame z df) ''c1'' hours (data_world now))
      = select_recent (libs_frame z df) now hours z sdf ts'"
proof -
  from load_series_example [OF assms(1-4), of z now] obtain w2 where
    l: "load_series (libs_frame z df) ''c1'' (data_world now) = (Inr (z, sdf), w2)"
    and c: "clock w2 = now" by blast
  have "try_redis_data (libs_frame z df) k (data_world now) = (None, data_world now)" for k
    by (simp add: try_redis_data_def data_world_def)
  moreover have "s3_client (data_world now)" by (simp add: data_world_def)
  ultimately show ?thesis
    using l c assms(5)
    by (simp add: get_recent_customer_data_def and_then_def Let_def split: sum.splits)
qed

lemma five_facts:
  "wf_frame frame_five"
  "get_col frame_five ''timestamp'' = Some [TS 300, TS 100, TS 500, TS 200, TS 400]"
  "datetimelike [TS 300, TS 100, TS 500, TS 200, TS 400]"
  "get_col frame_five_sorted ''timestamp'' = Some [TS 100, TS 200, TS 300, TS 400, TS 500]"
  by (simp_all add: wf_frame_def frame_five_def frame_five_sorted_def get_col_def
      datetimelike_def)

lemma old_future_facts:
  "wf_frame frame_old_future"
  "get_col frame_old_future ''timestamp'' = Some [TS 300, TS 2000000, TS 100, TS 200]"
  "datetimelike [TS 300, TS 2000000, TS 100, TS 200]"
  "get_col frame_old_future_sorted ''timestamp'' = Some [TS 100, TS 200, TS 300, TS 2000000]"
  by (simp_all add: wf_frame_def frame_old_future_def frame_old_future_sorted_def get_col_def
      datetimelike_def)

text \<open>
  Timestamps with a timezone: the comparison with the naive cutoff raises
  \<^verbatim>\<open>TypeError\<close>, whatever the records. A time span beyond \<^verbatim>\<open>timedelta\<close>, or a cutoff
  before the year 1: \<^verbatim>\<open>OverflowError\<close>.
\<close>

lemma get_recent_aware_raises:
  "fst (get_recent_customer_data (libs_frame Aware frame_five) ''c1'' 3 (data_world 1000000))
     = Inl TypeError"
  by (simp add: get_recent_example [OF five_facts(1-3) sort_frame_five five_facts(4)]
      select_recent_def cutoff_before_def series_ge_def in_ns_range_def datetime_min_def
      datetime_max_def)

lemma get_recent_overflow_raises:
  "fst (get_recent_customer_data (libs_frame Naive frame_five) ''c1'' 24000000000
         (data_world 1000000)) = Inl OverflowError
   \<and> fst (get_recent_customer_data (libs_frame Naive frame_five) ''c1'' 600000000
         (data_world 1000000)) = Inl OverflowError"
  by (simp add: get_recent_example [OF five_facts(1-3) sort_frame_five five_facts(4)]
      select_recent_def cutoff_before_def datetime_min_def datetime_max_def)

text \<open>
  C10, as stated, fails. The time is 1000000. With \<open>hours = 0\<close> and a stored series of
  five old records, no record lies in the window and the function returns
  \<^verbatim>\<open>df.tail(0)\<close>, an empty frame, although the series is not empty. With \<open>hours = 2\<close>
  and records at 100, 200, 300 and 2000000, no record lies in the last 2 hours before
  the current time, but the record after the current time passes the test
  \<^verbatim>\<open>timestamp >= cutoff\<close>: the function returns that record alone, not the last 2
  records of the series (those at 300 and 2000000).
\<close>

theorem get_recent_customer_data_counterexample:
  "0 < nrows frame_five
   \<and> fst (get_recent_customer_data (libs_frame Naive frame_five) ''c1'' 0 (data_world 1000000))
       = Inr \<lparr>nrows = 0, cols = [(''timestamp'', []), (''kWh'', [])]\<rparr>
   \<and> fst (get_recent_customer_data (libs_frame Naive frame_old_future) ''c1'' 2
            (data_world 1000000))
       = Inr \<lparr>nrows = 1, cols = [(''timestamp'', [TS 2000000]), (''kWh'', [Num 6])]\<rparr>
   \<and> tail 2 frame_old_future_sorted
       = \<lparr>nrows = 2, cols = [(''timestamp'', [TS 300, TS 2000000]), (''kWh'', [Num 3, Num 6])]\<rparr>"
proof -
  have 1: "fst (get_recent_customer_data (libs_frame Naive frame_five) ''c1'' 0
        (data_world 1000000))
      = Inr \<lparr>nrows = 0, cols = [(''timestamp'', []), (''kWh'', [])]\<rparr>"
    by (simp add: get_recent_example [OF five_facts(1-3) sort_frame_five five_facts(4)]
        select_recent_def cutoff_before_def series_ge_def in_ns_range_def datetime_min_def
        datetime_max_def at_or_after_def filter_rows_def tail_def frame_five_sorted_def)
  have 2: "fst (get_recent_customer_data (libs_frame Naive frame_old_future) ''c1'' 2
        (data_world 1000000))
      = Inr \<lparr>nrows = 1, cols = [(''timestamp'', [TS 2000000]), (''kWh'', [Num 6])]\<rparr>"
    by (simp add: get_recent_example [OF old_future_facts(1-3) sort_frame_old_future
          old_future_facts(4)]
        select_recent_def cutoff_before_def series_ge_def in_ns_range_def datetime_min_def
        datetime_max_def at_or_after_def filter_rows_def tail_def frame_old_future_sorted_def)
  have 3: "tail 2 frame_old_future_sorted
       = \<lparr>nrows = 2, cols = [(''timestamp'', [TS 300, TS 2000000]), (''kWh'', [Num 3, Num 6])]\<rparr>"
    by (simp add: tail_def frame_old_future_sorted_def)
  have 4: "0 < nrows frame_five" by (simp add: frame_five_def)
  from 1 2 3 4 show ?thesis by simp
qed

text \<open>
  C10 (amended) on the five old records, stored out of time order, at the time
  1000000 with \<open>hours = 3\<close>: the three latest records are returned, in time order.
\<close>

theorem get_recent_customer_data_fallback_witness:
  "0 < nrows frame_five
   \<and> fst (get_recent_customer_data (libs_frame Naive frame_five) ''c1'' 3 (data_world 1000000))
       = Inr \<lparr>nrows = 3, cols = [(''timestamp'', [TS 300, TS 400, TS 500]),
                                 (''kWh'', [Num 3, Num 4, Num 5])]\<rparr>"
proof -
  let ?w = "data_world 1000000 :: unit world"
  let ?libs = "libs_frame Naive frame_five"
  have miss: "try_redis_data ?libs
        (get_cache_key ''data'' ''c1'' (''recent_'' @ str_int 3 @ ''h'')) ?w = (None, ?w)"
    by (simp add: try_redis_data_def data_world_def)
  have s3: "s3_client ?w" by (simp add: data_world_def)
  from load_series_example [OF five_facts(1-3) sort_frame_five, of Naive 1000000]
  obtain w2 where series: "load_series ?libs ''c1'' ?w = (Inr (Naive, frame_five_sorted), w2)"
    by blast
  have span: "- 999999999 \<le> (3::int) div 24 \<and> (3::int) div 24 \<le> 999999999" by simp
  have range: "datetime_min \<le> clock ?w - 3600 * 3 \<and> clock ?w - 3600 * 3 \<le> datetime_max"
    by (simp add: data_world_def datetime_min_def datetime_max_def)
  have cmp: "in_ns_range (clock ?w - 3600 * 3) \<or> wide_compare ?libs"
    by (simp add: data_world_def in_ns_range_def)
  have nonempty: "0 < nrows frame_five_sorted" by (simp add: frame_five_sorted_def)
  have old: "\<forall>ts t. get_col frame_five_sorted ''timestamp'' = Some ts \<and> TS t \<in> set ts
                \<longrightarrow> t < clock ?w - 3600 * 3"
    by (auto simp: five_facts(4) data_world_def)
  from get_recent_customer_data_fallback [OF miss s3 series span range cmp nonempty old]
  have "fst (get_recent_customer_data ?libs ''c1'' 3 ?w)
      = Inr \<lparr>nrows = 3, cols = [(''timestamp'', [TS 300, TS 400, TS 500]),
                                 (''kWh'', [Num 3, Num 4, Num 5])]\<rparr>"
    by (auto simp: frame_five_sorted_def Let_def)
  then show ?thesis by (simp add: frame_five_def)
qed


subsection \<open>Model loading: the order of the tiers\<close>

text \<open>The cold load adds no read of the memory cache or of Redis to the trace.\<close>

lemma appends_refl [simp]: "appends P w w"
  by (simp add: appends_def)

lemma appends_trans [trans]:
  "appends P w w1 \<Longrightarrow> appends P w1 w2 \<Longrightarrow> appends P w w2"
  by (auto simp: appends_def)

lemma appends_logged: "P ev \<Longrightarrow> appends P w (logged ev w)"
  by (simp add: appends_def)

lemma appends_same_trace: "trace w' = trace w \<Longrightarrow> appends P w w'"
  by (simp add: appends_def)

lemma steps_and_then:
  assumes "steps P m" and "\<And>x. steps P (f x)"
  shows "steps P (and_then m f)"
  unfolding steps_def
proof
  fix w
  obtain r w1 where m: "m w = (r, w1)" by (cases "m w")
  from assms(1) m have a: "appends P w w1" by (auto simp: steps_def dest: spec [of _ w])
  show "appends P w (snd (and_then m f w))"
  proof (cases r)
    case (Inl e)
    with m a show ?thesis by (simp add: and_then_def)
  next
    case (Inr x)
    from assms(2) [of x] have "appends P w1 (snd (f x w1))" by (simp add: steps_def)
    with a m Inr show ?thesis by (auto simp: and_then_def intro: appends_trans)
  qed
qed

lemma steps_lib_call: "steps P (lib_call what r)"
  by (simp add: steps_def lib_call_def split: option.splits)

lemma steps_registry_path: "steps P (registry_path registry k)"
  by (simp add: steps_def registry_path_def split: option.splits)

lemma steps_read_file: "steps P (read_file p)"
  by (simp add: steps_def read_file_def split: option.splits)

lemma steps_return: "steps P (\<lambda>w. (x, w))"
  by (simp add: steps_def)

lemma trace_logged_upd [simp]:
  "trace (logged ev w) = trace w @ [ev]"
  by (simp add: logged_def)

lemma steps_s3_get_object:
  "steps no_cache_read (\<lambda>w. s3_get_object (b w) k w)"
  by (simp add: steps_def s3_get_object_def appends_def no_cache_read_def consulted_def
      split: option.splits)

lemma steps_s3_download_file:
  "steps no_cache_read (\<lambda>w. s3_download_file (b w) k p w)"
  by (simp add: steps_def s3_download_file_def appends_def no_cache_read_def consulted_def
      logged_def split: option.splits)

lemma appends_remove_if_exists: "appends no_cache_read w (remove_if_exists p w)"
  by (simp add: remove_if_exists_def appends_def no_cache_read_def consulted_def logged_def)

lemma appends_cache_bundle_in_redis:
  "appends no_cache_read w (cache_bundle_in_redis libs k b w)"
  by (simp add: cache_bundle_in_redis_def redis_setex_def appends_def no_cache_read_def
      consulted_def logged_def split: prod.splits option.splits)

lemma steps_case_option:
  "steps P a \<Longrightarrow> (\<And>p. steps P (b p)) \<Longrightarrow> steps P (case x of None \<Rightarrow> a | Some p \<Rightarrow> b p)"
  by (simp split: option.splits)

lemma steps_store_and_clean:
  "steps no_cache_read (\<lambda>w.
     (Inr (model, encoders, config),
      remove_if_exists p2 (remove_if_exists p1
        (cache_bundle_in_redis libs k (model, encoders, config)
          (w\<lparr>model_cache := (model_cache w)(cid \<mapsto> model),
              encoders_cache := (encoders_cache w)(cid \<mapsto> encoders),
              config_cache := (config_cache w)(cid \<mapsto> config)\<rparr>)))))"
  unfolding steps_def
proof
  fix w :: "'a world"
  let ?w1 = "w\<lparr>model_cache := (model_cache w)(cid \<mapsto> model),
                encoders_cache := (encoders_cache w)(cid \<mapsto> encoders),
                config_cache := (config_cache w)(cid \<mapsto> config)\<rparr>"
  let ?w2 = "cache_bundle_in_redis libs k (model, encoders, config) ?w1"
  let ?w3 = "remove_if_exists p1 ?w2"
  have "appends no_cache_read w ?w1" by (simp add: appends_same_trace)
  also have "appends no_cache_read ?w1 ?w2" by (rule appends_cache_bundle_in_redis)
  also have "appends no_cache_read ?w2 ?w3" by (rule appends_remove_if_exists)
  also have "appends no_cache_read ?w3 (remove_if_exists p2 ?w3)"
    by (rule appends_remove_if_exists)
  finally show "appends no_cache_read w
      (snd (Inr (model, encoders, config), remove_if_exists p2 ?w3))"
    by simp
qed

lemma steps_load_from_s3: "steps no_cache_read (load_from_s3 libs cid k)"
  unfolding load_from_s3_def [abs_def] Let_def
  by (intro steps_and_then steps_s3_get_object steps_lib_call steps_registry_path
      steps_s3_download_file steps_read_file steps_case_option steps_return
      steps_store_and_clean)

lemma try_redis_cache_world:
  "try_redis_cache libs k w = (r, w1) \<Longrightarrow>
   w1 = (if redis_client w then logged (RedisGet k) w else w)
   \<and> (r \<noteq> None \<longrightarrow> redis_client w)"
  by (auto simp: try_redis_cache_def redis_get_def
      split: if_splits outcome.splits option.splits prod.splits)

lemma load_redis_hit:
  assumes "try_redis_cache libs (get_cache_key ''model'' cid []) w = (Some b, w1)"
  shows "load_customer_model libs cid w
      = (Inr b, logged (RedisGet (get_cache_key ''model'' cid [])) w)"
  using assms try_redis_cache_world [OF assms]
  by (simp add: load_customer_model_def Let_def)

lemma load_memory_hit:
  assumes "try_redis_cache libs (get_cache_key ''model'' cid []) w = (None, w1)"
    and "model_cache w cid = Some m" and "encoders_cache w cid = Some e"
  shows "load_customer_model libs cid w
      = (Inr (m, e, case config_cache w cid of None \<Rightarrow> None | Some c \<Rightarrow> c),
         logged (MemoryLookup cid) w1)"
  using assms try_redis_cache_world [OF assms(1)]
  by (auto simp: load_customer_model_def Let_def)

lemma load_both_miss:
  assumes "try_redis_cache libs (get_cache_key ''model'' cid []) w = (None, w1)"
    and "model_cache w cid = None"
  shows "load_customer_model libs cid w
      = (if s3_client w
         then load_from_s3 libs cid (get_cache_key ''model'' cid []) (logged (MemoryLookup cid) w1)
         else (Inl S3Unavailable, logged (MemoryLookup cid) w1))"
  using assms try_redis_cache_world [OF assms(1)]
  by (auto simp: load_customer_model_def Let_def dom_def)

lemma load_trace:
  "\<exists>ds ms cs. trace (snd (load_customer_model libs cid w)) = trace w @ ds @ ms @ cs
      \<and> (ds = [] \<or> ds = [RedisGet (get_cache_key ''model'' cid [])])
      \<and> (ms = [] \<or> ms = [MemoryLookup cid])
      \<and> list_all no_cache_read cs
      \<and> (ms = [] \<or> fst (try_redis_cache libs (get_cache_key ''model'' cid []) w) = None)
      \<and> (cs = [] \<or> (fst (try_redis_cache libs (get_cache_key ''model'' cid []) w) = None
                      \<and> model_cache w cid = None))"
proof -
  let ?k = "get_cache_key ''model'' cid []"
  obtain r w1 where t: "try_redis_cache libs ?k w = (r, w1)"
    by (cases "try_redis_cache libs ?k w")
  from try_redis_cache_world [OF t]
  have w1: "w1 = (if redis_client w then logged (RedisGet ?k) w else w)" by simp
  define ds where "ds = (if redis_client w then [RedisGet ?k] else [])"
  have tw1: "trace w1 = trace w @ ds" by (simp add: w1 ds_def)
  have dsc: "ds = [] \<or> ds = [RedisGet ?k]" by (simp add: ds_def)
  show ?thesis
  proof (cases r)
    case (Some b)
    from load_redis_hit [of libs cid w b w1] t Some try_redis_cache_world [OF t]
    have "trace (snd (load_customer_model libs cid w)) = trace w @ [RedisGet ?k] @ [] @ []"
      by simp
    then show ?thesis by (intro exI [of _ "[RedisGet ?k]"] exI [of _ "[]"]) simp
  next
    case None
    note t' = t [unfolded None]
    show ?thesis
    proof (cases "model_cache w cid")
      case (Some m)
      have "trace (snd (load_customer_model libs cid w)) = trace w @ ds @ [MemoryLookup cid] @ []"
        using t' Some w1 tw1
        by (auto simp: load_customer_model_def Let_def split: option.splits)
      with dsc t' show ?thesis
        by (intro exI [of _ ds] exI [of _ "[MemoryLookup cid]"] exI [of _ "[]"]) simp
    next
      case mc: None
      let ?w2 = "logged (MemoryLookup cid) w1"
      show ?thesis
      proof (cases "s3_client w")
        case False
        with load_both_miss [OF t' mc] tw1
        have "trace (snd (load_customer_model libs cid w)) = trace w @ ds @ [MemoryLookup cid] @ []"
          by simp
        with dsc t' show ?thesis
          by (intro exI [of _ ds] exI [of _ "[MemoryLookup cid]"] exI [of _ "[]"]) simp
      next
        case True
        from steps_load_from_s3 [of libs cid ?k]
        have "appends no_cache_read ?w2 (snd (load_from_s3 libs cid ?k ?w2))"
          by (simp add: steps_def)
        then obtain cs where
          cs: "trace (snd (load_from_s3 libs cid ?k ?w2)) = trace ?w2 @ cs"
            "list_all no_cache_read cs"
          by (auto simp: appends_def)
        with load_both_miss [OF t' mc] True tw1
        have "trace (snd (load_customer_model libs cid w)) = trace w @ ds @ [MemoryLookup cid] @ cs"
          by simp
        with dsc t' mc cs(2) show ?thesis
          by (intro exI [of _ ds] exI [of _ "[MemoryLookup cid]"] exI [of _ cs]) simp
      qed
    qed
  qed
qed

lemma resolve_memory_hit:
  assumes "model_cache w cid = Some m" and "encoders_cache w cid = Some e"
  shows "resolve_model libs cid w
      = (Inr (m, e, case config_cache w cid of None \<Rightarrow> None | Some c \<Rightarrow> c),
         logged (MemoryLookup cid) w)"
  using assms by (auto simp: resolve_model_def Let_def)

lemma resolve_redis_hit:
  assumes "model_cache w cid = None"
    and "try_redis_cache libs (get_cache_key ''model'' cid []) (logged (MemoryLookup cid) w)
          = (Some (m, e, c), w1)"
  shows "fst (resolve_model libs cid w) = Inr (m, e, c)
     \<and> model_cache (snd (resolve_model libs cid w)) cid = Some m
     \<and> encoders_cache (snd (resolve_model libs cid w)) cid = Some e
     \<and> config_cache (snd (resolve_model libs cid w)) cid = Some c
     \<and> trace (snd (resolve_model libs cid w))
         = trace w @ [MemoryLookup cid, RedisGet (get_cache_key ''model'' cid [])]"
  using assms(1) load_redis_hit [OF assms(2)]
  by (simp add: resolve_model_def Let_def dom_def)


text \<open>
  C2, as stated, fails for \<^verbatim>\<open>load_customer_model\<close>. With the customer's bundle both in
  the memory cache and in Redis, the function reads Redis (and nothing else) and
  returns the Redis copy, not the memory copy; and on a Redis hit with an empty
  memory cache it returns without storing the bundle in the memory cache.
\<close>

theorem cache_tier_order_counterexample:
  "model_cache world_both ''c1'' = Some ''memory_model''
   \<and> fst (load_customer_model libs_plain ''c1'' world_both)
       = Inr (''redis_model'', ''redis_enc'', None)
   \<and> trace (snd (load_customer_model libs_plain ''c1'' world_both))
       = [RedisGet ''edge:model:c1:'']
   \<and> fst (load_customer_model libs_plain ''c1'' world_redis_only)
       = Inr (''redis_model'', ''redis_enc'', None)
   \<and> model_cache (snd (load_customer_model libs_plain ''c1'' world_redis_only)) ''c1'' = None"
  by (simp add: load_customer_model_def try_redis_cache_def world_both_def world_redis_only_def
      Let_def logged_def redis_get_def get_cache_key_def libs_plain_def)

text \<open>
  C2, amended. \<^verbatim>\<open>load_customer_model\<close> consults Redis first and returns its bundle on
  a hit, with no other call; on a Redis miss it consults the memory cache and returns
  its entry on a hit; it goes to S3 only when both miss. Its calls are, in order, at
  most one Redis read, at most one memory lookup, then calls that read neither. The
  request handler (\<open>resolve_model\<close>, step 1 of \<^verbatim>\<open>generate_forecast\<close>) looks into the
  memory cache before all that and returns the entry with no other call on a hit;
  on a miss it calls \<^verbatim>\<open>load_customer_model\<close> and stores what it returns, so a Redis
  hit populates the memory cache there.
\<close>

theorem cache_tier_order:
  "(\<forall>b w1. try_redis_cache libs (get_cache_key ''model'' cid []) w = (Some b, w1) \<longrightarrow>
       load_customer_model libs cid w
         = (Inr b, logged (RedisGet (get_cache_key ''model'' cid [])) w))
   \<and> (\<forall>w1 m e. try_redis_cache libs (get_cache_key ''model'' cid []) w = (None, w1)
         \<and> model_cache w cid = Some m \<and> encoders_cache w cid = Some e \<longrightarrow>
       load_customer_model libs cid w
         = (Inr (m, e, case config_cache w cid of None \<Rightarrow> None | Some c \<Rightarrow> c),
            logged (MemoryLookup cid) w1))
   \<and> (\<forall>w1. try_redis_cache libs (get_cache_key ''model'' cid []) w = (None, w1)
         \<and> model_cache w cid = None \<longrightarrow>
       load_customer_model libs cid w
         = (if s3_client w
            then load_from_s3 libs cid (get_cache_key ''model'' cid [])
                   (logged (MemoryLookup cid) w1)
            else (Inl S3Unavailable, logged (MemoryLookup cid) w1)))
   \<and> (\<exists>ds ms cs. trace (snd (load_customer_model libs cid w)) = trace w @ ds @ ms @ cs
        \<and> (ds = [] \<or> ds = [RedisGet (get_cache_key ''model'' cid [])])
        \<and> (ms = [] \<or> ms = [MemoryLookup cid])
        \<and> list_all no_cache_read cs
        \<and> (ms = [] \<or> fst (try_redis_cache libs (get_cache_key ''model'' cid []) w) = None)
        \<and> (cs = [] \<or> (fst (try_redis_cache libs (get_cache_key ''model'' cid []) w) = None
                        \<and> model_cache w cid = None)))
   \<and> (\<forall>m e. model_cache w cid = Some m \<and> encoders_cache w cid = Some e \<longrightarrow>
       resolve_model libs cid w
         = (Inr (m, e, case config_cache w cid of None \<Rightarrow> None | Some c \<Rightarrow> c),
            logged (MemoryLookup cid) w))
   \<and> (\<forall>m e c w1. model_cache w cid = None
         \<and> try_redis_cache libs (get_cache_key ''model'' cid []) (logged (MemoryLookup cid) w)
             = (Some (m, e, c), w1) \<longrightarrow>
       fst (resolve_model libs cid w) = Inr (m, e, c)
       \<and> model_cache (snd (resolve_model libs cid w)) cid = Some m
       \<and> encoders_cache (snd (resolve_model libs cid w)) cid = Some e
       \<and> config_cache (snd (resolve_model libs cid w)) cid = Some c
       \<and> trace (snd (resolve_model libs cid w))
           = trace w @ [MemoryLookup cid, RedisGet (get_cache_key ''model'' cid [])])"
proof (intro conjI allI impI)
  fix b w1 assume "try_redis_cache libs (get_cache_key ''model'' cid []) w = (Some b, w1)"
  then show "load_customer_model libs cid w
         = (Inr b, logged (RedisGet (get_cache_key ''model'' cid [])) w)"
    by (rule load_redis_hit)
next
  fix w1 m e assume "try_redis_cache libs (get_cache_key ''model'' cid []) w = (None, w1)
         \<and> model_cache w cid = Some m \<and> encoders_cache w cid = Some e"
  then show "load_customer_model libs cid w
         = (Inr (m, e, case config_cache w cid of None \<Rightarrow> None | Some c \<Rightarrow> c),
            logged (MemoryLookup cid) w1)"
    by (intro load_memory_hit) simp_all
next
  fix w1 assume "try_redis_cache libs (get_cache_key ''model'' cid []) w = (None, w1)
         \<and> model_cache w cid = None"
  then show "load_customer_model libs cid w
         = (if s3_client w
            then load_from_s3 libs cid (get_cache_key ''model'' cid [])
                   (logged (MemoryLookup cid) w1)
            else (Inl S3Unavailable, logged (MemoryLookup cid) w1))"
    by (intro load_both_miss) simp_all
next
  show "\<exists>ds ms cs. trace (snd (load_customer_model libs cid w)) = trace w @ ds @ ms @ cs
        \<and> (ds = [] \<or> ds = [RedisGet (get_cache_key ''model'' cid [])])
        \<and> (ms = [] \<or> ms = [MemoryLookup cid])
        \<and> list_all no_cache_read cs
        \<and> (ms = [] \<or> fst (try_redis_cache libs (get_cache_key ''model'' cid []) w) = None)
        \<and> (cs = [] \<or> (fst (try_redis_cache libs (get_cache_key ''model'' cid []) w) = None
                        \<and> model_cache w cid = None))"
    by (rule load_trace)
next
  fix m e assume "model_cache w cid = Some m \<and> encoders_cache w cid = Some e"
  then show "resolve_model libs cid w
         = (Inr (m, e, case config_cache w cid of None \<Rightarrow> None | Some c \<Rightarrow> c),
            logged (MemoryLookup cid) w)"
    by (intro resolve_memory_hit) simp_all
next
  fix m e c w1
  assume a: "model_cache w cid = None
         \<and> try_redis_cache libs (get_cache_key ''model'' cid []) (logged (MemoryLookup cid) w)
             = (Some (m, e, c), w1)"
  then have a1: "model_cache w cid = None"
    and a2: "try_redis_cache libs (get_cache_key ''model'' cid []) (logged (MemoryLookup cid) w)
             = (Some (m, e, c), w1)" by simp_all
  note r = resolve_redis_hit [OF a1 a2]
  from r show "fst (resolve_model libs cid w) = Inr (m, e, c)" by simp
  from r show "model_cache (snd (resolve_model libs cid w)) cid = Some m" by simp
  from r show "encoders_cache (snd (resolve_model libs cid w)) cid = Some e" by simp
  from r show "config_cache (snd (resolve_model libs cid w)) cid = Some c" by simp
  from r show "trace (snd (resolve_model libs cid w))
           = trace w @ [MemoryLookup cid, RedisGet (get_cache_key ''model'' cid [])]" by simp
qed

text \<open>C2 (amended) with both tiers filled, and with Redis only.\<close>

theorem cache_tier_order_witness:
  "load_customer_model libs_plain ''c1'' world_both
     = (Inr (''redis_model'', ''redis_enc'', None),
        logged (RedisGet (get_cache_key ''model'' ''c1'' [])) world_both)
   \<and> resolve_model libs_plain ''c1'' world_both
     = (Inr (''memory_model'', ''memory_enc'', None), logged (MemoryLookup ''c1'') world_both)
   \<and> fst (resolve_model libs_plain ''c1'' world_redis_only)
       = Inr (''redis_model'', ''redis_enc'', None)
   \<and> model_cache (snd (resolve_model libs_plain ''c1'' world_redis_only)) ''c1''
       = Some ''redis_model''"
proof -
  note t = cache_tier_order [of libs_plain "''c1''"]
  have h1: "try_redis_cache libs_plain (get_cache_key ''model'' ''c1'' []) world_both
      = (Some (''redis_model'', ''redis_enc'', None),
         logged (RedisGet (get_cache_key ''model'' ''c1'' [])) world_both)"
    by (simp add: try_redis_cache_def world_both_def redis_get_def get_cache_key_def
        libs_plain_def logged_def)
  note r1 = t [of world_both, THEN conjunct1, THEN spec, THEN spec, THEN mp, OF h1]
  have h2: "model_cache world_both ''c1'' = Some ''memory_model''
      \<and> encoders_cache world_both ''c1'' = Some ''memory_enc''"
    by (simp add: world_both_def)
  have c2: "(case config_cache world_both ''c1'' of None \<Rightarrow> None | Some c \<Rightarrow> c) = None"
    by (simp add: world_both_def)
  note r2 = t [of world_both, THEN conjunct2, THEN conjunct2, THEN conjunct2, THEN conjunct2,
      THEN conjunct1, THEN spec, THEN spec, THEN mp, OF h2, unfolded c2]
  have h3: "model_cache world_redis_only ''c1'' = None
      \<and> try_redis_cache libs_plain (get_cache_key ''model'' ''c1'' [])
            (logged (MemoryLookup ''c1'') world_redis_only)
          = (Some (''redis_model'', ''redis_enc'', None),
             logged (RedisGet (get_cache_key ''model'' ''c1'' []))
               (logged (MemoryLookup ''c1'') world_redis_only))"
    by (simp add: try_redis_cache_def world_redis_only_def world_both_def redis_get_def
        get_cache_key_def libs_plain_def logged_def)
  note r3 = t [of world_redis_only, THEN conjunct2, THEN conjunct2, THEN conjunct2,
      THEN conjunct2, THEN conjunct2, THEN spec, THEN spec, THEN spec, THEN spec, THEN mp,
      OF h3]
  from r1 r2 r3 show ?thesis by blast
qed


subsection \<open>Model loading: temporary files\<close>

text \<open>A cold load that returns has removed both temporary files.\<close>

lemma files_remove_if_exists [simp]: "files (remove_if_exists p w) = (files w)(p := None)"
  by (auto simp: remove_if_exists_def logged_def)

lemma files_cache_bundle_in_redis [simp]:
  "files (cache_bundle_in_redis libs k b w) = files w"
  by (simp add: cache_bundle_in_redis_def redis_setex_def logged_def
      split: prod.splits option.splits)

lemma load_from_s3_success_cleans:
  assumes "load_from_s3 libs cid k w = (Inr b, w')"
  shows "files w' (''/tmp/model_'' @ cid @ ''.h5'') = None
     \<and> files w' (''/tmp/encoders_'' @ cid @ ''.pkl'') = None"
  using assms unfolding load_from_s3_def Let_def and_then_Inr
  by (elim exE conjE) (auto simp del: append.simps)

text \<open>
  C8 at a load that fails after the first download: the registry and the model
  weights are in the bucket, the encoders are not. The load ends in the exception of
  the second download, and the temporary file of the weights, which did not exist
  before, is still on the disk: the clean-up stands at the end of the \<^verbatim>\<open>try\<close> block
  and the \<^verbatim>\<open>except\<close> branch only logs and re-raises.
\<close>

theorem load_customer_model_leaves_temp_file:
  "fst (load_customer_model libs_plain ''c1'' world_no_encoders) = Inl (LibraryError ''NoSuchKey'')
   \<and> files world_no_encoders ''/tmp/model_c1.h5'' = None
   \<and> files (snd (load_customer_model libs_plain ''c1'' world_no_encoders)) ''/tmp/model_c1.h5''
       = Some ''WEIGHTS''"
  by (simp add: load_customer_model_def try_redis_cache_def world_no_encoders_def Let_def
      logged_def dom_def load_from_s3_def and_then_def s3_get_object_def lib_call_def
      libs_plain_def registry_path_def remove_all.simps s3_download_file_def read_file_def)

end
